theory Spec2Isabelle
  imports Complex_Main "HOL-Library.AList"
begin

section \<open>Python values\<close>

text \<open>
  Python ints are integers; a dict whose size or key multiplicity matters is an
  association list in insertion order. Every operation of the source that can raise is a
  value of \<open>py_error + 'a\<close>. A finite Python float is given by its real value. Where
  a function only adds, subtracts, multiplies and compares, or is used at inputs on which
  the float operations are exact, its arithmetic is written on these real values; where
  rounding or overflow decide the result (position sizing), the float operations are
  modelled with both, below.
\<close>

datatype py_error = ZeroDivisionError | KeyError | ValueError | IndexError | OverflowError

definition py_truediv :: "real \<Rightarrow> real \<Rightarrow> py_error + real" where
  "py_truediv a b = (if b = 0 then Inl ZeroDivisionError else Inr (a / b))"

definition bind_err :: "py_error + 'a \<Rightarrow> ('a \<Rightarrow> py_error + 'b) \<Rightarrow> py_error + 'b" where
  "bind_err m f = (case m of Inl e \<Rightarrow> Inl e | Inr x \<Rightarrow> f x)"

text \<open>\<open>int(x)\<close> on a float truncates towards zero.\<close>

definition py_int :: "real \<Rightarrow> int" where
  "py_int x = (if 0 \<le> x then \<lfloor>x\<rfloor> else \<lceil>x\<rceil>)"

section \<open>Floats with rounding and overflow\<close>

text \<open>
  A float value: a finite double (its real value; the two zeros are both \<open>Fin 0\<close>, their
  sign changes no result below), an infinity or NaN. The rounding of an exact finite
  result to the nearest double is the parameter \<open>rnd\<close> of every operation; a result of
  magnitude \<open>2^1024 - 2^970\<close> or more, the midpoint above the largest double, overflows
  to an infinity, as \<open>*\<close> and \<open>/\<close> on Python floats do without raising.
\<close>

datatype pyfloat = Fin real | PosInf | NegInf | NaN

definition fround :: "(real \<Rightarrow> real) \<Rightarrow> real \<Rightarrow> pyfloat" where
  "fround rnd z =
     (if 2 ^ 1024 - 2 ^ 970 \<le> z then PosInf
      else if z \<le> - (2 ^ 1024 - 2 ^ 970) then NegInf
      else Fin (rnd z))"

text \<open>\<open>x * y\<close> on finite floats.\<close>

definition fmul :: "(real \<Rightarrow> real) \<Rightarrow> real \<Rightarrow> real \<Rightarrow> pyfloat" where
  "fmul rnd x y = fround rnd (x * y)"

text \<open>\<open>a / b\<close> on floats: a zero divisor raises whatever the dividend is.\<close>

fun fdiv :: "(real \<Rightarrow> real) \<Rightarrow> pyfloat \<Rightarrow> pyfloat \<Rightarrow> py_error + pyfloat" where
  "fdiv rnd a (Fin y) =
     (if y = 0 then Inl ZeroDivisionError
      else case a of
             Fin x \<Rightarrow> Inr (fround rnd (x / y))
           | PosInf \<Rightarrow> Inr (if 0 < y then PosInf else NegInf)
           | NegInf \<Rightarrow> Inr (if 0 < y then NegInf else PosInf)
           | NaN \<Rightarrow> Inr NaN)"
| "fdiv rnd (Fin x) PosInf = Inr (Fin 0)"
| "fdiv rnd (Fin x) NegInf = Inr (Fin 0)"
| "fdiv rnd a b = Inr NaN"

text \<open>\<open>int(q)\<close> on a float: truncation, \<open>OverflowError\<close> on an infinity,
  \<open>ValueError\<close> on NaN.\<close>

fun float_to_int :: "pyfloat \<Rightarrow> py_error + int" where
  "float_to_int (Fin x) = Inr (py_int x)"
| "float_to_int PosInf = Inl OverflowError"
| "float_to_int NegInf = Inl OverflowError"
| "float_to_int NaN = Inl ValueError"

text \<open>The rounding of results that are doubles already.\<close>

definition exact_rounding :: "real \<Rightarrow> real" where
  "exact_rounding z = z"

section \<open>analytics/risk/manager.py\<close>

record rm_position =
  side :: string
  entry_price :: real
  quantity :: int
  stop_loss :: real
  take_profit :: real

record rm_trade =
  t_symbol :: string
  t_side :: string
  t_entry :: real
  t_exit :: real
  t_quantity :: int
  t_pnl :: real

record risk_manager =
  initial_capital :: real
  current_capital :: real
  max_risk_per_trade :: real
  max_portfolio_risk :: real
  stop_loss_pct :: real
  take_profit_pct :: real
  open_positions :: "(string \<times> rm_position) list"
  closed_trades :: "rm_trade list"

definition RiskManager_init :: "real \<Rightarrow> real \<Rightarrow> real \<Rightarrow> real \<Rightarrow> real \<Rightarrow> risk_manager" where
  "RiskManager_init capital risk_per_trade portfolio_risk sl_pct tp_pct =
     \<lparr>initial_capital = capital, current_capital = capital,
      max_risk_per_trade = risk_per_trade, max_portfolio_risk = portfolio_risk,
      stop_loss_pct = sl_pct, take_profit_pct = tp_pct,
      open_positions = [], closed_trades = []\<rparr>"

text \<open>The constructor's default arguments.\<close>

definition RiskManager_default :: risk_manager where
  "RiskManager_default = RiskManager_init 100000 (2 / 100) (6 / 100) (2 / 100) (4 / 100)"

text \<open>
  \<open>calculate_position_size\<close> multiplies, divides and converts floats, where rounding and
  overflow decide the result. Its arguments and the manager's fields are finite floats;
  the intermediate results are \<open>pyfloat\<close> values.
\<close>

definition calculate_position_size ::
    "(real \<Rightarrow> real) \<Rightarrow> risk_manager \<Rightarrow> real \<Rightarrow> py_error + int" where
  "calculate_position_size rnd rm price =
     (let risk_amount = fmul rnd (current_capital rm) (max_risk_per_trade rm);
          stop_loss_distance = fmul rnd price (stop_loss_pct rm)
      in if stop_loss_distance = Fin 0 then Inr 1
         else bind_err (fdiv rnd risk_amount stop_loss_distance) (\<lambda>q.
              bind_err (float_to_int q) (\<lambda>quantity.
                Inr (max 1 quantity))))"

definition calculate_stop_loss :: "risk_manager \<Rightarrow> real \<Rightarrow> string \<Rightarrow> real" where
  "calculate_stop_loss rm price sd =
     (if sd = ''BUY'' then price * (1 - stop_loss_pct rm)
      else price * (1 + stop_loss_pct rm))"

definition calculate_take_profit :: "risk_manager \<Rightarrow> real \<Rightarrow> string \<Rightarrow> real" where
  "calculate_take_profit rm price sd =
     (if sd = ''BUY'' then price * (1 + take_profit_pct rm)
      else price * (1 - take_profit_pct rm))"

definition check_stop_loss :: "risk_manager \<Rightarrow> string \<Rightarrow> real \<Rightarrow> bool" where
  "check_stop_loss rm symbol current_price =
     (case map_of (open_positions rm) symbol of
        None \<Rightarrow> False
      | Some pos \<Rightarrow>
          if side pos = ''BUY'' then current_price \<le> stop_loss pos
          else current_price \<ge> stop_loss pos)"

definition check_take_profit :: "risk_manager \<Rightarrow> string \<Rightarrow> real \<Rightarrow> bool" where
  "check_take_profit rm symbol current_price =
     (case map_of (open_positions rm) symbol of
        None \<Rightarrow> False
      | Some pos \<Rightarrow>
          if side pos = ''BUY'' then current_price \<ge> take_profit pos
          else current_price \<le> take_profit pos)"

definition open_position :: "string \<Rightarrow> string \<Rightarrow> real \<Rightarrow> int \<Rightarrow> risk_manager \<Rightarrow> risk_manager" where
  "open_position symbol sd price qty rm =
     (let sl = calculate_stop_loss rm price sd;
          tp = calculate_take_profit rm price sd
      in rm\<lparr>open_positions :=
               AList.update symbol
                 \<lparr>side = sd, entry_price = price, quantity = qty,
                  stop_loss = sl, take_profit = tp\<rparr>
                 (open_positions rm)\<rparr>)"

definition close_position :: "string \<Rightarrow> real \<Rightarrow> risk_manager \<Rightarrow> rm_trade option \<times> risk_manager" where
  "close_position symbol exit_price rm =
     (case map_of (open_positions rm) symbol of
        None \<Rightarrow> (None, rm)
      | Some pos \<Rightarrow>
          (let pnl = (if side pos = ''BUY''
                      then (exit_price - entry_price pos) * of_int (quantity pos)
                      else (entry_price pos - exit_price) * of_int (quantity pos));
               trade = \<lparr>t_symbol = symbol, t_side = side pos, t_entry = entry_price pos,
                        t_exit = exit_price, t_quantity = quantity pos, t_pnl = pnl\<rparr>
           in (Some trade,
               rm\<lparr>open_positions := AList.delete symbol (open_positions rm),
                  current_capital := current_capital rm + pnl,
                  closed_trades := closed_trades rm @ [trade]\<rparr>)))"

definition get_portfolio_risk :: "risk_manager \<Rightarrow> real" where
  "get_portfolio_risk rm =
     (if open_positions rm = [] then 0
      else of_nat (length (open_positions rm)) * max_risk_per_trade rm)"

definition can_open_position :: "risk_manager \<Rightarrow> bool" where
  "can_open_position rm =
     (let current_risk = get_portfolio_risk rm;
          new_risk = current_risk + max_risk_per_trade rm
      in new_risk \<le> max_portfolio_risk rm)"

text \<open>
  The dict returned by \<open>get_stats\<close>: the branch for an empty trade list has no
  \<open>'final_capital'\<close> key, so that field is optional.
\<close>

record rm_stats =
  total_trades :: nat
  winning_trades :: nat
  losing_trades :: nat
  win_rate :: real
  total_pnl :: real
  avg_win :: real
  avg_loss :: real
  profit_factor :: real
  final_capital :: "real option"

definition get_stats :: "risk_manager \<Rightarrow> py_error + rm_stats" where
  "get_stats rm =
     (if closed_trades rm = [] then
        Inr \<lparr>total_trades = 0, winning_trades = 0, losing_trades = 0, win_rate = 0,
             total_pnl = 0, avg_win = 0, avg_loss = 0, profit_factor = 0,
             final_capital = None\<rparr>
      else
        (let total = length (closed_trades rm);
             wins = filter (\<lambda>t. t_pnl t > 0) (closed_trades rm);
             losses = filter (\<lambda>t. t_pnl t < 0) (closed_trades rm);
             tpnl = sum_list (map t_pnl (closed_trades rm))
         in bind_err (if wins \<noteq> [] then py_truediv (sum_list (map t_pnl wins)) (of_nat (length wins))
                      else Inr 0) (\<lambda>aw.
            bind_err (if losses \<noteq> [] then py_truediv (sum_list (map t_pnl losses)) (of_nat (length losses))
                      else Inr 0) (\<lambda>al.
            (let gross_profit = sum_list (map t_pnl wins);
                 gross_loss = \<bar>sum_list (map t_pnl losses)\<bar>
             in bind_err (if gross_loss > 0 then py_truediv gross_profit gross_loss else Inr 0) (\<lambda>pf.
                bind_err (if total > 0
                          then bind_err (py_truediv (of_nat (length wins)) (of_nat total))
                                 (\<lambda>r. Inr (r * 100))
                          else Inr 0) (\<lambda>wr.
                Inr \<lparr>total_trades = total, winning_trades = length wins,
                     losing_trades = length losses, win_rate = wr, total_pnl = tpnl,
                     avg_win = aw, avg_loss = al, profit_factor = pf,
                     final_capital = Some (current_capital rm)\<rparr>)))))))"

section \<open>analytics/strategies/base_strategy.py\<close>

text \<open>A candle row as the strategies read it: keys \<open>time\<close>, \<open>symbol\<close>, \<open>open\<close>,
  \<open>high\<close>, \<open>low\<close>, \<open>close\<close>, \<open>volume\<close>; the time is a number of minutes.\<close>

record candle =
  c_time :: nat
  c_symbol :: string
  c_open :: real
  c_high :: real
  c_low :: real
  c_close :: real
  c_volume :: int

record strategy_position =
  sp_side :: string
  sp_entry_price :: real
  sp_quantity :: int
  sp_entry_time :: nat

record strategy_trade =
  st_symbol :: string
  st_side :: string
  st_entry_price :: real
  st_exit_price :: real
  st_quantity :: int
  st_pnl :: real
  st_entry_time :: nat
  st_exit_time :: nat

record base_strategy =
  symbol :: string
  name :: string
  position :: "strategy_position option"
  trades :: "strategy_trade list"

definition strategy_close_position :: "candle \<Rightarrow> 'a base_strategy_scheme \<Rightarrow> 'a base_strategy_scheme" where
  "strategy_close_position cdl s =
     (case position s of
        None \<Rightarrow> s
      | Some p \<Rightarrow>
          (let exit_price = c_close cdl;
               pnl = (if sp_side p = ''BUY''
                      then (exit_price - sp_entry_price p) * of_int (sp_quantity p)
                      else (sp_entry_price p - exit_price) * of_int (sp_quantity p));
               trade = \<lparr>st_symbol = symbol s, st_side = sp_side p,
                        st_entry_price = sp_entry_price p, st_exit_price = exit_price,
                        st_quantity = sp_quantity p, st_pnl = pnl,
                        st_entry_time = sp_entry_time p, st_exit_time = c_time cdl\<rparr>
           in s\<lparr>trades := trades s @ [trade], position := None\<rparr>))"

definition handle_buy_signal :: "candle \<Rightarrow> int \<Rightarrow> 'a base_strategy_scheme \<Rightarrow> 'a base_strategy_scheme" where
  "handle_buy_signal cdl qty s =
     (let open_long = (\<lambda>s'. s'\<lparr>position :=
             Some \<lparr>sp_side = ''BUY'', sp_entry_price = c_close cdl, sp_quantity = qty,
                   sp_entry_time = c_time cdl\<rparr>\<rparr>)
      in case position s of
           Some p \<Rightarrow>
             if sp_side p = ''SELL'' then open_long (strategy_close_position cdl s)
             else s
         | None \<Rightarrow> open_long s)"

definition handle_sell_signal :: "candle \<Rightarrow> int \<Rightarrow> 'a base_strategy_scheme \<Rightarrow> 'a base_strategy_scheme" where
  "handle_sell_signal cdl qty s =
     (let open_short = (\<lambda>s'. s'\<lparr>position :=
             Some \<lparr>sp_side = ''SELL'', sp_entry_price = c_close cdl, sp_quantity = qty,
                   sp_entry_time = c_time cdl\<rparr>\<rparr>)
      in case position s of
           Some p \<Rightarrow>
             if sp_side p = ''BUY'' then open_short (strategy_close_position cdl s)
             else s
         | None \<Rightarrow> open_short s)"

text \<open>The dict of \<open>BaseStrategy.get_stats\<close>; every branch has the same seven keys.\<close>

record strategy_stats =
  ss_total_trades :: nat
  ss_winning_trades :: nat
  ss_losing_trades :: nat
  ss_win_rate :: real
  ss_total_pnl :: real
  ss_avg_win :: real
  ss_avg_loss :: real

definition strategy_get_stats :: "'a base_strategy_scheme \<Rightarrow> py_error + strategy_stats" where
  "strategy_get_stats s =
     (if trades s = [] then
        Inr \<lparr>ss_total_trades = 0, ss_winning_trades = 0, ss_losing_trades = 0,
             ss_win_rate = 0, ss_total_pnl = 0, ss_avg_win = 0, ss_avg_loss = 0\<rparr>
      else
        (let total = length (trades s);
             wins = filter (\<lambda>t. st_pnl t > 0) (trades s);
             losses = filter (\<lambda>t. st_pnl t < 0) (trades s);
             tpnl = sum_list (map st_pnl (trades s))
         in bind_err (if wins \<noteq> [] then py_truediv (sum_list (map st_pnl wins)) (of_nat (length wins))
                      else Inr 0) (\<lambda>aw.
            bind_err (if losses \<noteq> [] then py_truediv (sum_list (map st_pnl losses)) (of_nat (length losses))
                      else Inr 0) (\<lambda>al.
            bind_err (if total > 0
                      then bind_err (py_truediv (of_nat (length wins)) (of_nat total))
                             (\<lambda>r. Inr (r * 100))
                      else Inr 0) (\<lambda>wr.
            Inr \<lparr>ss_total_trades = total, ss_winning_trades = length wins,
                 ss_losing_trades = length losses, ss_win_rate = wr, ss_total_pnl = tpnl,
                 ss_avg_win = aw, ss_avg_loss = al\<rparr>)))))"

section \<open>analytics/strategies/intraday/scalping\_mean\_reversion.py\<close>

text \<open>The slice \<open>xs[start:]\<close>: a negative start counts from the end, and both ends clip.\<close>

definition py_slice_from :: "int \<Rightarrow> 'a list \<Rightarrow> 'a list" where
  "py_slice_from start xs =
     (let n = int (length xs);
          k = (if start < 0 then max 0 (start + n) else min start n)
      in drop (nat k) xs)"

record mean_reversion = base_strategy +
  bb_period :: int
  bb_std :: real
  price_history :: "real list"

definition ScalpingMeanReversionStrategy_init :: "string \<Rightarrow> int \<Rightarrow> real \<Rightarrow> mean_reversion" where
  "ScalpingMeanReversionStrategy_init sy period k =
     \<lparr>symbol = sy, name = ''scalping_mean_reversion'', position = None, trades = [],
      bb_period = period, bb_std = k, price_history = []\<rparr>"

text \<open>The bands \<open>(upper, ma, lower)\<close>, or \<open>None\<close> for the triple of \<open>None\<close>s returned on
  a short history.\<close>

definition calculate_bollinger_bands ::
    "mean_reversion \<Rightarrow> real list \<Rightarrow> py_error + (real \<times> real \<times> real) option" where
  "calculate_bollinger_bands s prices =
     (if int (length prices) < bb_period s then Inr None
      else
        (let recent = py_slice_from (- bb_period s) prices
         in bind_err (py_truediv (sum_list recent) (of_nat (length recent))) (\<lambda>ma.
            bind_err (py_truediv (sum_list (map (\<lambda>x. (x - ma)\<^sup>2) recent))
                        (of_nat (length recent))) (\<lambda>variance.
            (let std = sqrt variance;
                 upper = ma + bb_std s * std;
                 lower = ma - bb_std s * std
             in Inr (Some (upper, ma, lower)))))))"

record mr_signal =
  sig_action :: string
  sig_price :: real
  sig_upper :: real
  sig_middle :: real
  sig_lower :: real

definition mr_on_candle :: "candle \<Rightarrow> mean_reversion \<Rightarrow> py_error + (mr_signal option \<times> mean_reversion)" where
  "mr_on_candle cdl s =
     (let close = c_close cdl;
          h1 = price_history s @ [close];
          h2 = (if length h1 > 100 then py_slice_from (- 100) h1 else h1);
          s1 = s\<lparr>price_history := h2\<rparr>
      in bind_err (calculate_bollinger_bands s1 h2) (\<lambda>bands.
           case bands of
             None \<Rightarrow> Inr (None, s1)
           | Some (upper, middle, lower) \<Rightarrow>
               if upper = 0 then Inr (None, s1)
               else if position s1 = None then
                 (if close \<le> lower
                  then Inr (Some \<lparr>sig_action = ''BUY'', sig_price = close, sig_upper = upper,
                                   sig_middle = middle, sig_lower = lower\<rparr>,
                            handle_buy_signal cdl 1 s1)
                  else Inr (None, s1))
               else
                 (if close \<ge> upper \<or> close \<ge> middle
                  then Inr (Some \<lparr>sig_action = ''SELL'', sig_price = close, sig_upper = upper,
                                   sig_middle = middle, sig_lower = lower\<rparr>,
                            handle_sell_signal cdl 1 s1)
                  else Inr (None, s1))))"

fun generate_signals :: "candle list \<Rightarrow> mean_reversion \<Rightarrow> py_error + (mr_signal list \<times> mean_reversion)" where
  "generate_signals [] s = Inr ([], s)"
| "generate_signals (cdl # cdls) s =
     bind_err (mr_on_candle cdl s) (\<lambda>(sg, s').
       bind_err (generate_signals cdls s') (\<lambda>(sgs, s'').
         Inr ((case sg of None \<Rightarrow> sgs | Some x \<Rightarrow> x # sgs), s'')))"

section \<open>analytics/backtest/engine.py\<close>

text \<open>The result dict of \<open>BacktestEngine.run\<close>; the branch for no candles has no
  \<open>avg_win\<close> and \<open>avg_loss\<close> keys.\<close>

record backtest_result =
  br_total_trades :: nat
  br_pnl :: real
  br_win_rate :: real
  br_wins :: nat
  br_losses :: nat
  br_avg_win :: "real option"
  br_avg_loss :: "real option"

text \<open>The loop \<open>for candle in candles: await strategy.on_candle(candle)\<close>, for any
  strategy class given by its \<open>on_candle\<close>.\<close>

fun feed_candles ::
    "(candle \<Rightarrow> 's \<Rightarrow> py_error + ('g \<times> 's)) \<Rightarrow> candle list \<Rightarrow> 's \<Rightarrow> py_error + 's" where
  "feed_candles on_candle [] s = Inr s"
| "feed_candles on_candle (cdl # cdls) s =
     bind_err (on_candle cdl s) (\<lambda>(sg, s'). feed_candles on_candle cdls s')"

text \<open>\<open>run\<close> on the candles fetched from the store. The strategy object is local to
  \<open>run\<close>; its final state is returned beside the result so that it can be stated.\<close>

definition run ::
    "(candle \<Rightarrow> 'a base_strategy_scheme \<Rightarrow> py_error + ('g \<times> 'a base_strategy_scheme))
       \<Rightarrow> 'a base_strategy_scheme \<Rightarrow> candle list
       \<Rightarrow> py_error + (backtest_result \<times> 'a base_strategy_scheme)" where
  "run on_candle strategy candles =
     (if candles = [] then
        Inr (\<lparr>br_total_trades = 0, br_pnl = 0, br_win_rate = 0, br_wins = 0, br_losses = 0,
              br_avg_win = None, br_avg_loss = None\<rparr>, strategy)
      else
        bind_err (feed_candles on_candle candles strategy) (\<lambda>s.
        bind_err (strategy_get_stats s) (\<lambda>stats.
          Inr (\<lparr>br_total_trades = ss_total_trades stats, br_pnl = ss_total_pnl stats,
                br_win_rate = ss_win_rate stats, br_wins = ss_winning_trades stats,
                br_losses = ss_losing_trades stats,
                br_avg_win = Some (ss_avg_win stats),
                br_avg_loss = Some (ss_avg_loss stats)\<rparr>, s))))"

section \<open>scripts/realtime\_trading\_engine.py: ticks to candles\<close>

text \<open>
  A tick is a dict read through \<open>tick.get\<close>; each key the source reads is an optional
  field, and the nested dict \<open>v\<close> has the keys \<open>lp\<close> and \<open>volume\<close>. Times are
  microseconds since the epoch, given to each call in place of \<open>datetime.now\<close>.
\<close>

record tick_v =
  v_lp :: "real option"
  v_volume :: "int option"

record raw_tick =
  tk_symbol :: "string option"
  tk_fyToken :: "string option"
  tk_s :: "string option"
  tk_id :: "string option"
  tk_type :: "string option"
  tk_ltp :: "real option"
  tk_last_traded_price :: "real option"
  tk_last_price :: "real option"
  tk_lp :: "real option"
  tk_v :: "tick_v option"
  tk_vol_traded_today :: "int option"
  tk_volume :: "int option"

text \<open>\<open>a or b\<close>: \<open>a\<close> when it is truthy, else \<open>b\<close>.\<close>

definition py_or :: "('a \<Rightarrow> bool) \<Rightarrow> 'a option \<Rightarrow> 'a option \<Rightarrow> 'a option" where
  "py_or truthy a b = (case a of None \<Rightarrow> b | Some x \<Rightarrow> if truthy x then a else b)"

definition tick_symbol :: "raw_tick \<Rightarrow> string option" where
  "tick_symbol tick =
     py_or (\<lambda>x. x \<noteq> []) (tk_symbol tick)
       (py_or (\<lambda>x. x \<noteq> []) (tk_fyToken tick)
          (py_or (\<lambda>x. x \<noteq> []) (tk_s tick) (tk_id tick)))"

definition tick_ltp :: "raw_tick \<Rightarrow> real option" where
  "tick_ltp tick =
     py_or (\<lambda>x. x \<noteq> 0) (tk_ltp tick)
       (py_or (\<lambda>x. x \<noteq> 0) (tk_last_traded_price tick)
          (py_or (\<lambda>x. x \<noteq> 0) (tk_last_price tick)
             (py_or (\<lambda>x. x \<noteq> 0) (tk_lp tick)
                (case tk_v tick of None \<Rightarrow> None | Some v \<Rightarrow> v_lp v))))"

definition tick_volume :: "raw_tick \<Rightarrow> int option" where
  "tick_volume tick =
     py_or (\<lambda>x. x \<noteq> 0) (tk_vol_traded_today tick)
       (py_or (\<lambda>x. x \<noteq> 0) (tk_volume tick)
          (case tk_v tick of None \<Rightarrow> Some 0 | Some v \<Rightarrow> v_volume v))"

text \<open>\<open>int(volume) if volume else d\<close>.\<close>

definition volume_or :: "int option \<Rightarrow> int \<Rightarrow> int" where
  "volume_or volume d = (case volume of None \<Rightarrow> d | Some v \<Rightarrow> if v \<noteq> 0 then v else d)"

record live_candle =
  lc_symbol :: string
  lc_timestamp :: nat
  lc_open :: real
  lc_high :: real
  lc_low :: real
  lc_close :: real
  lc_volume :: int
  lc_timeframe :: string

text \<open>
  The part of the engine that \<open>_process_single_tick\<close> reads and writes. \<open>loop_set\<close>
  says whether \<open>self.loop\<close> is set; \<open>closed_candles\<close> lists the
  \<open>on_candle_close\<close> calls scheduled on it, in order.
\<close>

record tick_engine =
  symbols :: "string list"
  current_candles :: "string \<rightharpoonup> live_candle"
  last_tick_time :: "string \<rightharpoonup> nat"
  loop_set :: bool
  closed_candles :: "(string \<times> live_candle) list"

definition RealtimeTradingEngine_init :: tick_engine where
  "RealtimeTradingEngine_init =
     \<lparr>symbols = [''NSE:RELIANCE-EQ'', ''NSE:TCS-EQ'', ''NSE:INFY-EQ'', ''NSE:HDFCBANK-EQ'',
                 ''NSE:ICICIBANK-EQ''],
      current_candles = Map.empty, last_tick_time = Map.empty, loop_set = False,
      closed_candles = []\<rparr>"

text \<open>\<open>timestamp.replace(second=0, microsecond=0)\<close>.\<close>

definition minute_start :: "nat \<Rightarrow> nat" where
  "minute_start now = now - now mod 60000000"

definition process_single_tick :: "nat \<Rightarrow> raw_tick \<Rightarrow> tick_engine \<Rightarrow> tick_engine" where
  "process_single_tick now tick e =
     (let sy_opt = tick_symbol tick
      in if tk_type tick = Some ''sub'' \<and> tk_s tick = Some ''ok'' then e
         else
           (let ltp = tick_ltp tick; volume = tick_volume tick
            in case sy_opt of
                 None \<Rightarrow> e
               | Some sy \<Rightarrow>
                   if sy = [] \<or> sy \<notin> set (symbols e) then e
                   else
                     (case ltp of
                        None \<Rightarrow> e
                      | Some p \<Rightarrow>
                          if p = 0 then e
                          else
                            (let e1 = e\<lparr>last_tick_time := (last_tick_time e)(sy \<mapsto> now)\<rparr>;
                                 candle_time = minute_start now
                             in case current_candles e1 sy of
                                  None \<Rightarrow>
                                    e1\<lparr>current_candles := (current_candles e1)(sy \<mapsto>
                                         \<lparr>lc_symbol = sy, lc_timestamp = candle_time,
                                          lc_open = p, lc_high = p, lc_low = p, lc_close = p,
                                          lc_volume = volume_or volume 0,
                                          lc_timeframe = ''1m''\<rparr>)\<rparr>
                                | Some cur \<Rightarrow>
                                    if lc_timestamp cur \<noteq> candle_time then
                                      (let e2 = (if loop_set e1
                                                 then e1\<lparr>closed_candles :=
                                                          closed_candles e1 @ [(sy, cur)]\<rparr>
                                                 else e1)
                                       in e2\<lparr>current_candles := (current_candles e2)(sy \<mapsto>
                                            \<lparr>lc_symbol = sy, lc_timestamp = candle_time,
                                             lc_open = p, lc_high = p, lc_low = p, lc_close = p,
                                             lc_volume = volume_or volume 0,
                                             lc_timeframe = ''1m''\<rparr>)\<rparr>)
                                    else
                                      e1\<lparr>current_candles := (current_candles e1)(sy \<mapsto>
                                           cur\<lparr>lc_high := max (lc_high cur) p,
                                               lc_low := min (lc_low cur) p,
                                               lc_close := p,
                                               lc_volume := volume_or volume (lc_volume cur)\<rparr>)\<rparr>))))"

text \<open>\<open>on_tick\<close> on a list of ticks, each with the time of its call.\<close>

fun on_tick :: "(nat \<times> raw_tick) list \<Rightarrow> tick_engine \<Rightarrow> tick_engine" where
  "on_tick [] e = e"
| "on_tick ((now, tick) # rest) e = on_tick rest (process_single_tick now tick e)"

section \<open>scripts/realtime\_trading\_engine.py: consensus\<close>

text \<open>
  What \<open>check_consensus\<close> reads of a strategy: whether it has the attribute
  \<open>current_signal\<close>, whether that is \<open>None\<close>, and else the value of
  \<open>signal.get('action')\<close>.
\<close>

datatype current_signal = NoAttribute | SignalNone | SignalDict "string option"

fun buy_vote :: "current_signal \<Rightarrow> nat" where
  "buy_vote (SignalDict (Some a)) = (if a = ''BUY'' then 1 else 0)"
| "buy_vote _ = 0"

fun sell_vote :: "current_signal \<Rightarrow> nat" where
  "sell_vote (SignalDict (Some a)) = (if a = ''BUY'' then 0 else if a = ''SELL'' then 1 else 0)"
| "sell_vote _ = 0"

text \<open>The call of \<open>execute_trade\<close> that \<open>check_consensus\<close> makes, if any: action and
  price. \<open>active\<close> says whether the symbol is in \<open>active_positions\<close>.\<close>

definition check_consensus :: "current_signal list \<Rightarrow> bool \<Rightarrow> real \<Rightarrow> (string \<times> real) option" where
  "check_consensus strategies active close =
     (let buy_votes = sum_list (map buy_vote strategies);
          sell_votes = sum_list (map sell_vote strategies)
      in if buy_votes \<ge> 2 \<and> \<not> active then Some (''BUY'', close)
         else if sell_votes \<ge> 2 \<and> active then Some (''SELL'', close)
         else None)"

section \<open>scripts/auto\_trader.py: consensus\<close>

record at_signal =
  as_strategy :: string
  as_side :: string
  as_entry :: real
  as_current :: real

record auto_trader =
  at_mode :: string
  at_position_size :: real
  at_min_move_pct :: real
  at_min_net_profit :: real
  at_brokerage :: real
  at_live_buy_only :: bool

definition AutoTrader_init :: "string \<Rightarrow> auto_trader" where
  "AutoTrader_init mode =
     \<lparr>at_mode = mode, at_position_size = 5000, at_min_move_pct = 5 / 10,
      at_min_net_profit = 25, at_brokerage = 48, at_live_buy_only = True\<rparr>"

record opportunity =
  op_symbol :: string
  op_side :: string
  op_entry :: real
  op_current :: real
  op_qty :: int
  op_net_pnl :: real
  op_move_pct :: real
  op_strategies :: "string list"

text \<open>The signals of the strategies that hold a position after the replay: class name
  and position of each strategy, and the last close.\<close>

definition collect_signals :: "(string \<times> strategy_position option) list \<Rightarrow> real \<Rightarrow> at_signal list" where
  "collect_signals strategies last_close =
     concat (map (\<lambda>(nm, pos).
        case pos of
          None \<Rightarrow> []
        | Some p \<Rightarrow> [\<lparr>as_strategy = nm, as_side = sp_side p,
                        as_entry = sp_entry_price p, as_current = last_close\<rparr>]) strategies)"

definition dominant_signals :: "auto_trader \<Rightarrow> at_signal list \<Rightarrow> at_signal list" where
  "dominant_signals t signals =
     (let buy_signals = filter (\<lambda>s. as_side s = ''BUY'') signals;
          sell_signals = filter (\<lambda>s. as_side s = ''SELL'') signals
      in if at_mode t = ''live'' \<and> at_live_buy_only t
         then (if length buy_signals \<ge> 2 then buy_signals else [])
         else (if length buy_signals \<ge> 2 then buy_signals
               else if length sell_signals \<ge> 2 then sell_signals else []))"

text \<open>Lines 69 to 107 of \<open>scan_opportunities\<close> for one symbol: the opportunity
  appended, if any.\<close>

definition scan_symbol :: "auto_trader \<Rightarrow> string \<Rightarrow> at_signal list \<Rightarrow> real \<Rightarrow> py_error + opportunity option" where
  "scan_symbol t sy signals current_price =
     (let dom = dominant_signals t signals
      in if length dom \<ge> 2 then
           bind_err (py_truediv (sum_list (map as_entry dom)) (of_nat (length dom))) (\<lambda>avg_entry.
           bind_err (case dom of [] \<Rightarrow> Inl IndexError | d # _ \<Rightarrow> Inr (as_side d)) (\<lambda>sd.
           bind_err (if sd = ''BUY''
                     then bind_err (py_truediv (current_price - avg_entry) avg_entry)
                            (\<lambda>r. Inr (r * 100))
                     else bind_err (py_truediv (avg_entry - current_price) avg_entry)
                            (\<lambda>r. Inr (r * 100))) (\<lambda>move_pct.
           bind_err (py_truediv (at_position_size t) current_price) (\<lambda>q.
             (let qty = py_int q;
                  gross_pnl = \<bar>current_price - avg_entry\<bar> * of_int qty;
                  net_pnl = gross_pnl - at_brokerage t;
                  min_move_threshold =
                    (if at_mode t = ''live'' \<and> sd = ''BUY'' then 3 / 10 else at_min_move_pct t)
              in if \<bar>move_pct\<bar> \<ge> min_move_threshold \<and> net_pnl > at_min_net_profit t
                 then Inr (Some \<lparr>op_symbol = sy, op_side = sd, op_entry = avg_entry,
                                  op_current = current_price, op_qty = qty,
                                  op_net_pnl = net_pnl, op_move_pct = move_pct,
                                  op_strategies = map as_strategy dom\<rparr>)
                 else Inr None)))))
         else Inr None)"

section \<open>Auxiliary definitions for the statements\<close>

text \<open>A candle whose four prices are all \<open>c\<close>, at time \<open>t\<close>.\<close>

definition flat_candle :: "string \<Rightarrow> real \<Rightarrow> nat \<Rightarrow> candle" where
  "flat_candle sy c t =
     \<lparr>c_time = t, c_symbol = sy, c_open = c, c_high = c, c_low = c, c_close = c, c_volume = 0\<rparr>"

text \<open>The number of entries of \<open>open_positions\<close> for a symbol.\<close>

definition positions_for :: "string \<Rightarrow> risk_manager \<Rightarrow> nat" where
  "positions_for k rm = length (filter (\<lambda>e. fst e = k) (open_positions rm))"

text \<open>A tick carrying symbol, last traded price and traded volume under the keys
  \<open>symbol\<close>, \<open>ltp\<close> and \<open>vol_traded_today\<close>.\<close>

definition mk_tick :: "string \<Rightarrow> real \<Rightarrow> int \<Rightarrow> raw_tick" where
  "mk_tick sy p v =
     \<lparr>tk_symbol = Some sy, tk_fyToken = None, tk_s = None, tk_id = None, tk_type = None,
      tk_ltp = Some p, tk_last_traded_price = None, tk_last_price = None, tk_lp = None,
      tk_v = None, tk_vol_traded_today = Some v, tk_volume = None\<rparr>"

text \<open>A tick that \<open>_process_single_tick\<close> accepts for symbol \<open>sy\<close> in the minute
  starting at \<open>m\<close>: not a subscription acknowledgement, the symbol resolves to \<open>sy\<close>,
  the price resolves to a non-zero number.\<close>

definition wf_tick :: "string \<Rightarrow> nat \<Rightarrow> nat \<times> raw_tick \<Rightarrow> bool" where
  "wf_tick sy m nt =
     (case nt of (now, tick) \<Rightarrow>
        \<not> (tk_type tick = Some ''sub'' \<and> tk_s tick = Some ''ok'')
        \<and> tick_symbol tick = Some sy
        \<and> (case tick_ltp tick of None \<Rightarrow> False | Some p \<Rightarrow> p \<noteq> 0)
        \<and> minute_start now = m)"

definition tick_price :: "nat \<times> raw_tick \<Rightarrow> real" where
  "tick_price nt = (case tick_ltp (snd nt) of None \<Rightarrow> 0 | Some p \<Rightarrow> p)"

text \<open>The latest non-zero reported volume of a tick list, 0 when there is none.\<close>

definition latest_volume :: "(nat \<times> raw_tick) list \<Rightarrow> int" where
  "latest_volume ticks =
     (case filter (\<lambda>v. v \<noteq> 0) (map (\<lambda>nt. volume_or (tick_volume (snd nt)) 0) ticks) of
        [] \<Rightarrow> 0
      | v # vs \<Rightarrow> last (v # vs))"

section \<open>Risk manager: closing a position\<close>


lemma open_position_lookup:
  "map_of (open_positions (open_position sy sd price qty rm)) sy =
     Some \<lparr>side = sd, entry_price = price, quantity = qty,
           stop_loss = calculate_stop_loss rm price sd,
           take_profit = calculate_take_profit rm price sd\<rparr>"
  by (simp add: open_position_def Let_def update_conv')

lemma open_position_capital:
  "current_capital (open_position sy sd price qty rm) = current_capital rm"
  by (simp add: open_position_def Let_def)





text \<open>
  C3. For a sy with no entry in the open-position map, \<open>close_position\<close> returns
  no trade and leaves the capital, the open positions and the closed trades unchanged.
\<close>

theorem close_position_missing_noop:
  "map_of (open_positions rm) sy = None \<Longrightarrow>
     close_position sy exit_price rm = (None, rm)"
  by (simp add: close_position_def)

theorem close_position_missing_noop_witness:
  "map_of (open_positions RiskManager_default) ''NSE:INFY-EQ'' = None
   \<and> close_position ''NSE:INFY-EQ'' 1500 RiskManager_default = (None, RiskManager_default)"
proof -
  have h: "map_of (open_positions RiskManager_default) ''NSE:INFY-EQ'' = None"
    by (simp add: RiskManager_default_def RiskManager_init_def)
  from h close_position_missing_noop [OF h, of 1500] show ?thesis by simp
qed

section \<open>Risk manager: opening over an existing position\<close>

lemma open_position_others:
  "other \<noteq> sy \<Longrightarrow>
     map_of (open_positions (open_position sy sd price qty rm)) other
       = map_of (open_positions rm) other"
  by (simp add: open_position_def Let_def update_conv')

lemma open_position_closed_trades:
  "closed_trades (open_position sy sd price qty rm) = closed_trades rm"
  by (simp add: open_position_def Let_def)

text \<open>
  C7 as stated fails: \<open>open_position\<close> has no guard and assigns
  \<open>self.open_positions[sy]\<close> unconditionally. After BUY 10 at 100, a second call
  SELL 5 at 200 for the same sy changes the recorded position.
\<close>

theorem open_position_overwrites_counterexample:
  "map_of (open_positions
      (open_position ''NSE:TCS-EQ'' ''SELL'' 200 5
         (open_position ''NSE:TCS-EQ'' ''BUY'' 100 10 RiskManager_default))) ''NSE:TCS-EQ''
   \<noteq> map_of (open_positions
         (open_position ''NSE:TCS-EQ'' ''BUY'' 100 10 RiskManager_default)) ''NSE:TCS-EQ''"
  by (simp add: open_position_lookup)

text \<open>
  C7, amended. For a sy that already has an open position, a further
  \<open>open_position\<close> replaces the recorded position by the one computed from the new
  arguments (side, entry price, quantity, stop-loss, take-profit); the positions of other
  symbols, the capital and the closed trades are unchanged.
\<close>

theorem open_position_overwrites:
  "map_of (open_positions rm) sy = Some old \<Longrightarrow>
     map_of (open_positions (open_position sy sd price qty rm)) sy =
       Some \<lparr>side = sd, entry_price = price, quantity = qty,
             stop_loss = calculate_stop_loss rm price sd,
             take_profit = calculate_take_profit rm price sd\<rparr>
     \<and> (\<forall>other. other \<noteq> sy \<longrightarrow>
           map_of (open_positions (open_position sy sd price qty rm)) other
             = map_of (open_positions rm) other)
     \<and> current_capital (open_position sy sd price qty rm) = current_capital rm
     \<and> closed_trades (open_position sy sd price qty rm) = closed_trades rm"
  by (simp add: open_position_lookup open_position_others open_position_capital
        open_position_closed_trades)

theorem open_position_overwrites_witness:
  "map_of (open_positions (open_position ''NSE:TCS-EQ'' ''BUY'' 100 10 RiskManager_default))
       ''NSE:TCS-EQ''
     = Some \<lparr>side = ''BUY'', entry_price = 100, quantity = 10, stop_loss = 98,
             take_profit = 104\<rparr>
   \<and> map_of (open_positions
        (open_position ''NSE:TCS-EQ'' ''SELL'' 200 5
           (open_position ''NSE:TCS-EQ'' ''BUY'' 100 10 RiskManager_default))) ''NSE:TCS-EQ''
     = Some \<lparr>side = ''SELL'', entry_price = 200, quantity = 5, stop_loss = 204,
             take_profit = 192\<rparr>"
proof -
  have h: "map_of (open_positions (open_position ''NSE:TCS-EQ'' ''BUY'' 100 10 RiskManager_default))
       ''NSE:TCS-EQ''
     = Some \<lparr>side = ''BUY'', entry_price = 100, quantity = 10, stop_loss = 98,
             take_profit = 104\<rparr>"
    by (simp add: open_position_lookup calculate_stop_loss_def calculate_take_profit_def
          RiskManager_default_def RiskManager_init_def)
  have pct: "stop_loss_pct (open_position ''NSE:TCS-EQ'' ''BUY'' 100 10 RiskManager_default) = 2 / 100"
    "take_profit_pct (open_position ''NSE:TCS-EQ'' ''BUY'' 100 10 RiskManager_default) = 4 / 100"
    by (simp_all add: open_position_def Let_def RiskManager_default_def RiskManager_init_def)
  from open_position_overwrites [OF h, of "''SELL''" 200 5] h pct
  show ?thesis by (simp add: calculate_stop_loss_def calculate_take_profit_def)
qed

section \<open>Risk manager: position sizing\<close>

lemma max_one_py_int: "max 1 (py_int x) = max 1 \<lfloor>x\<rfloor>"
proof (cases "0 \<le> x")
  case True
  then show ?thesis by (simp add: py_int_def)
next
  case False
  then have "\<lceil>x\<rceil> \<le> 0" and "\<lfloor>x\<rfloor> \<le> 0"
    by (simp_all add: ceiling_le_zero floor_le_zero le_floor_iff)
  with False show ?thesis by (simp add: py_int_def)
qed

lemma fdiv_no_zero_division:
  "b \<noteq> Fin 0 \<Longrightarrow> fdiv rnd a b \<noteq> Inl ZeroDivisionError"
  by (cases "(rnd, a, b)" rule: fdiv.cases) (auto split: pyfloat.splits)

lemma float_to_int_no_zero_division: "float_to_int q \<noteq> Inl ZeroDivisionError"
  by (cases q) simp_all

text \<open>
  C8 as stated fails: the guard covers a stop-loss distance equal to zero only. For a
  tiny non-zero distance the float quotient overflows to infinity and \<open>int\<close> raises
  \<open>OverflowError\<close>. With \<open>RiskManager(100000.0, 0.03125, 0.0625, 0.03125, 0.0625)\<close> and
  the entry price \<open>2^-1030\<close> every operation before the division is exact
  (\<open>3125\<close> and \<open>2^-1035\<close>), and the quotient \<open>3125 * 2^1035\<close> overflows.
\<close>

theorem calculate_position_size_overflow_counterexample:
  "calculate_position_size exact_rounding
      (RiskManager_init 100000 (1 / 32) (1 / 16) (1 / 32) (1 / 16)) (1 / 2 ^ 1030)
     = Inl OverflowError"
  by (simp add: calculate_position_size_def RiskManager_init_def fmul_def fround_def
        exact_rounding_def Let_def bind_err_def)

text \<open>
  C8, amended. For every finite entry price \<open>\<ge> 0\<close>, \<open>calculate_position_size\<close> never
  raises \<open>ZeroDivisionError\<close>: when the float stop-loss distance
  \<open>entry_price * stop_loss_pct\<close> equals zero it returns 1 instead of dividing; otherwise,
  when the float quotient of \<open>current_capital * max_risk_per_trade\<close> by that distance is
  finite, it returns the floor of the quotient, floored below at 1; when the quotient
  overflows to an infinity, \<open>OverflowError\<close> is raised to the caller, and \<open>ValueError\<close>
  when it is NaN. This holds for every rounding function.
\<close>

theorem calculate_position_size_float:
  "0 \<le> price \<Longrightarrow>
     calculate_position_size rnd rm price \<noteq> Inl ZeroDivisionError
     \<and> (fmul rnd price (stop_loss_pct rm) = Fin 0 \<longrightarrow>
           calculate_position_size rnd rm price = Inr 1)
     \<and> (fmul rnd price (stop_loss_pct rm) \<noteq> Fin 0 \<longrightarrow>
           (\<forall>q. fdiv rnd (fmul rnd (current_capital rm) (max_risk_per_trade rm))
                    (fmul rnd price (stop_loss_pct rm)) = Inr (Fin q) \<longrightarrow>
                calculate_position_size rnd rm price = Inr (max 1 \<lfloor>q\<rfloor>))
           \<and> (fdiv rnd (fmul rnd (current_capital rm) (max_risk_per_trade rm))
                    (fmul rnd price (stop_loss_pct rm)) = Inr PosInf
               \<or> fdiv rnd (fmul rnd (current_capital rm) (max_risk_per_trade rm))
                    (fmul rnd price (stop_loss_pct rm)) = Inr NegInf \<longrightarrow>
                calculate_position_size rnd rm price = Inl OverflowError)
           \<and> (fdiv rnd (fmul rnd (current_capital rm) (max_risk_per_trade rm))
                    (fmul rnd price (stop_loss_pct rm)) = Inr NaN \<longrightarrow>
                calculate_position_size rnd rm price = Inl ValueError))"
proof -
  let ?d = "fmul rnd price (stop_loss_pct rm)"
  let ?r = "fmul rnd (current_capital rm) (max_risk_per_trade rm)"
  have nz: "calculate_position_size rnd rm price \<noteq> Inl ZeroDivisionError"
  proof (cases "?d = Fin 0")
    case True
    then show ?thesis by (simp add: calculate_position_size_def Let_def)
  next
    case False
    from fdiv_no_zero_division [OF False, of rnd ?r] float_to_int_no_zero_division
    show ?thesis using False
      by (auto simp: calculate_position_size_def Let_def bind_err_def split: sum.splits)
  qed
  have zero: "?d = Fin 0 \<longrightarrow> calculate_position_size rnd rm price = Inr 1"
    by (simp add: calculate_position_size_def Let_def)
  have fin: "?d \<noteq> Fin 0 \<longrightarrow>
           (\<forall>q. fdiv rnd ?r ?d = Inr (Fin q) \<longrightarrow>
                calculate_position_size rnd rm price = Inr (max 1 \<lfloor>q\<rfloor>))
           \<and> (fdiv rnd ?r ?d = Inr PosInf \<or> fdiv rnd ?r ?d = Inr NegInf \<longrightarrow>
                calculate_position_size rnd rm price = Inl OverflowError)
           \<and> (fdiv rnd ?r ?d = Inr NaN \<longrightarrow>
                calculate_position_size rnd rm price = Inl ValueError)"
    by (auto simp: calculate_position_size_def Let_def bind_err_def max_one_py_int)
  from nz zero fin show ?thesis by (intro conjI)
qed

theorem calculate_position_size_float_witness:
  "calculate_position_size exact_rounding
      (RiskManager_init 100000 (1 / 32) (1 / 16) (1 / 32) (1 / 16)) 100 = Inr 1000
   \<and> calculate_position_size exact_rounding
      (RiskManager_init 100000 (1 / 32) (1 / 16) (1 / 32) (1 / 16)) 0 = Inr 1"
proof -
  let ?rm = "RiskManager_init 100000 (1 / 32) (1 / 16) (1 / 32) (1 / 16)"
  have h: "(0::real) \<le> 100" and z: "(0::real) \<le> 0" by simp_all
  have d: "fmul exact_rounding 100 (stop_loss_pct ?rm) \<noteq> Fin 0"
    by (simp add: fmul_def fround_def exact_rounding_def RiskManager_init_def)
  have q: "fdiv exact_rounding (fmul exact_rounding (current_capital ?rm) (max_risk_per_trade ?rm))
             (fmul exact_rounding 100 (stop_loss_pct ?rm)) = Inr (Fin 1000)"
    by (simp add: fmul_def fround_def exact_rounding_def RiskManager_init_def)
  have d0: "fmul exact_rounding 0 (stop_loss_pct ?rm) = Fin 0"
    by (simp add: fmul_def fround_def exact_rounding_def)
  from calculate_position_size_float [OF h, of exact_rounding ?rm] d q
  have a: "calculate_position_size exact_rounding ?rm 100 = Inr 1000" by simp
  from calculate_position_size_float [OF z, of exact_rounding ?rm] d0
  have b: "calculate_position_size exact_rounding ?rm 0 = Inr 1" by simp
  from a b show ?thesis by (rule conjI)
qed


text \<open>
  The overflow does not depend on the rounding: for every monotone rounding that leaves
  powers of two unchanged, the default manager (capital 100000, both fractions between
  \<open>2^-6\<close> and \<open>2^-5\<close>, as the doubles nearest 0.02 are) raises \<open>OverflowError\<close> at
  every entry price between \<open>2^-1030\<close> and \<open>2^-1029\<close>, such as the double nearest
  \<open>1e-310\<close>.
\<close>

lemma calculate_position_size_overflow_default:
  assumes mono: "\<And>x y. x \<le> y \<Longrightarrow> rnd x \<le> rnd y"
    and fix_small: "\<And>k. k \<le> 1074 \<Longrightarrow> rnd (1 / 2 ^ k) = 1 / 2 ^ k"
    and fix_big: "\<And>k. k \<le> 1023 \<Longrightarrow> rnd (2 ^ k) = 2 ^ k"
    and price: "1 / 2 ^ 1030 \<le> price" "price \<le> 1 / 2 ^ 1029"
    and capital: "current_capital rm = 100000"
    and risk: "1 / 2 ^ 6 \<le> max_risk_per_trade rm" "max_risk_per_trade rm \<le> 1 / 2 ^ 5"
    and sl: "1 / 2 ^ 6 \<le> stop_loss_pct rm" "stop_loss_pct rm \<le> 1 / 2 ^ 5"
  shows "calculate_position_size rnd rm price = Inl OverflowError"
proof -
  define z where "z = price * stop_loss_pct rm"
  define w where "w = current_capital rm * max_risk_per_trade rm"
  have p0: "0 \<le> price" using price(1) by (rule order_trans [rotated]) simp
  have s0: "0 \<le> stop_loss_pct rm" using sl(1) by (rule order_trans [rotated]) simp
  have "(1 / 2 ^ 1030) * (1 / 2 ^ 6) \<le> price * stop_loss_pct rm"
    by (rule mult_mono [OF price(1) sl(1)]) (use p0 in simp_all)
  then have zl: "1 / 2 ^ 1036 \<le> z" by (simp add: z_def)
  have "price * stop_loss_pct rm \<le> (1 / 2 ^ 1029) * (1 / 2 ^ 5)"
    by (rule mult_mono [OF price(2) sl(2)]) (use s0 in simp_all)
  then have zu: "z \<le> 1 / 2 ^ 1034" by (simp add: z_def)
  have wl: "2 ^ 10 \<le> w" using risk(1) by (simp add: w_def capital)
  have wu: "w \<le> 2 ^ 12" using risk(2) by (simp add: w_def capital)
  have f1: "rnd (1 / 2 ^ 1036) = 1 / 2 ^ 1036" by (rule fix_small) simp
  have f2: "rnd (1 / 2 ^ 1034) = 1 / 2 ^ 1034" by (rule fix_small) simp
  have f3: "rnd (2 ^ 10) = 2 ^ 10" by (rule fix_big) simp
  have rzl: "1 / 2 ^ 1036 \<le> rnd z" using mono [OF zl] unfolding f1 .
  have rzu: "rnd z \<le> 1 / 2 ^ 1034" using mono [OF zu] unfolding f2 .
  have rwl: "2 ^ 10 \<le> rnd w" using mono [OF wl] unfolding f3 .
  have rz0: "0 < rnd z" using rzl by (rule less_le_trans [rotated]) simp
  have d: "fmul rnd price (stop_loss_pct rm) = Fin (rnd z)"
    using zl zu
    by (simp add: fmul_def fround_def z_def [symmetric])
  have r: "fmul rnd (current_capital rm) (max_risk_per_trade rm) = Fin (rnd w)"
    using wl wu by (simp add: fmul_def fround_def w_def [symmetric])
  have "2 ^ 10 / (1 / 2 ^ 1034) \<le> rnd w / rnd z"
    by (rule frac_le) (use rwl rzu rz0 in simp_all)
  then have big: "(2::real) ^ 1024 - 2 ^ 970 \<le> rnd w / rnd z" by simp
  show ?thesis
    using rz0 big by (simp add: calculate_position_size_def Let_def d r bind_err_def fround_def)
qed

section \<open>Risk manager: statistics\<close>

lemma get_stats_total: "\<exists>st. get_stats rm = Inr st"
  by (auto simp: get_stats_def Let_def py_truediv_def bind_err_def)

lemma get_stats_nonempty_final_capital:
  "closed_trades rm \<noteq> [] \<Longrightarrow> get_stats rm = Inr st \<Longrightarrow>
     final_capital st = Some (current_capital rm)"
  by (auto simp: get_stats_def Let_def py_truediv_def bind_err_def split: if_splits)

text \<open>
  C10. With no closed trades \<open>get_stats\<close> returns zeros for the eight aggregates, but the
  dict of that branch has no \<open>final_capital\<close> entry, while the branch for a non-empty
  history returns it (\<open>get_stats_nonempty_final_capital\<close>). No division by zero occurs
  for any history (\<open>get_stats_total\<close>).
\<close>

theorem get_stats_empty_no_final_capital:
  "get_stats RiskManager_default =
     Inr \<lparr>total_trades = 0, winning_trades = 0, losing_trades = 0, win_rate = 0,
          total_pnl = 0, avg_win = 0, avg_loss = 0, profit_factor = 0,
          final_capital = None\<rparr>"
  by (simp add: get_stats_def RiskManager_default_def RiskManager_init_def)

section \<open>Mean reversion on a constant price series\<close>

lemma py_slice_from_replicate:
  "0 < p \<Longrightarrow> p \<le> n \<Longrightarrow> py_slice_from (- int p) (replicate n c) = replicate p c"
  by (simp add: py_slice_from_def Let_def nat_diff_distrib' max_def)

lemma sum_list_replicate_real: "sum_list (replicate n (c::real)) = of_nat n * c"
  by (induction n) (simp_all add: algebra_simps)

lemma bands_const:
  assumes "1 \<le> p" "bb_period s = int p" "p \<le> n"
  shows "calculate_bollinger_bands s (replicate n c) = Inr (Some (c, c, c))"
proof -
  have p0: "0 < p" using assms by simp
  show ?thesis using assms(2,3) p0
    by (simp add: calculate_bollinger_bands_def py_slice_from_replicate Let_def py_truediv_def
          bind_err_def sum_list_replicate_real)
qed

lemma bands_short:
  "bb_period s = int p \<Longrightarrow> n < p \<Longrightarrow> calculate_bollinger_bands s prices = Inr None" if "length prices = n"
  using that by (simp add: calculate_bollinger_bands_def)

lemma history_step:
  "m \<le> 100 \<Longrightarrow>
     (if length (replicate m c @ [c]) > 100 then py_slice_from (- 100) (replicate m c @ [c])
      else replicate m c @ [c]) = replicate (min (Suc m) 100) c"
proof -
  assume m: "m \<le> 100"
  have app: "replicate m c @ [c] = replicate (Suc m) c"
    by (simp add: replicate_append_same)
  show ?thesis
  proof (cases "m = 100")
    case True
    have "py_slice_from (- int 100) (replicate 101 c) = replicate 100 c"
      by (rule py_slice_from_replicate) simp_all
    with True show ?thesis unfolding app by simp
  next
    case False
    with m have "Suc m \<le> 100" by simp
    then show ?thesis unfolding app by (simp add: min_def)
  qed
qed


lemma handle_sell_signal_ext:
  "bb_period (handle_sell_signal cdl q s) = bb_period s"
  "price_history (handle_sell_signal cdl q s) = price_history s"
  "position (handle_sell_signal cdl q s) \<noteq> None"
  by (simp_all add: handle_sell_signal_def strategy_close_position_def Let_def
        split: option.splits)

lemma handle_buy_signal_flat:
  "position s = None \<Longrightarrow>
     handle_buy_signal cdl q s =
       s\<lparr>position := Some \<lparr>sp_side = ''BUY'', sp_entry_price = c_close cdl,
                            sp_quantity = q, sp_entry_time = c_time cdl\<rparr>\<rparr>"
  by (simp add: handle_buy_signal_def Let_def)


lemma mr_on_candle_const:
  assumes "price_history s = replicate m c" "c_close cdl = c" "m \<le> 100"
  shows "mr_on_candle cdl s =
     bind_err (calculate_bollinger_bands (s\<lparr>price_history := replicate (min (Suc m) 100) c\<rparr>)
                 (replicate (min (Suc m) 100) c)) (\<lambda>bands.
           case bands of
             None \<Rightarrow> Inr (None, s\<lparr>price_history := replicate (min (Suc m) 100) c\<rparr>)
           | Some (upper, middle, lower) \<Rightarrow>
               if upper = 0 then Inr (None, s\<lparr>price_history := replicate (min (Suc m) 100) c\<rparr>)
               else if position (s\<lparr>price_history := replicate (min (Suc m) 100) c\<rparr>) = None then
                 (if c \<le> lower
                  then Inr (Some \<lparr>sig_action = ''BUY'', sig_price = c, sig_upper = upper,
                                   sig_middle = middle, sig_lower = lower\<rparr>,
                            handle_buy_signal cdl 1 (s\<lparr>price_history := replicate (min (Suc m) 100) c\<rparr>))
                  else Inr (None, s\<lparr>price_history := replicate (min (Suc m) 100) c\<rparr>))
               else
                 (if c \<ge> upper \<or> c \<ge> middle
                  then Inr (Some \<lparr>sig_action = ''SELL'', sig_price = c, sig_upper = upper,
                                   sig_middle = middle, sig_lower = lower\<rparr>,
                            handle_sell_signal cdl 1 (s\<lparr>price_history := replicate (min (Suc m) 100) c\<rparr>))
                  else Inr (None, s\<lparr>price_history := replicate (min (Suc m) 100) c\<rparr>)))"
  unfolding mr_on_candle_def Let_def assms(1,2) history_step [OF assms(3)] by (rule refl)

lemma step_warm:
  assumes "price_history s = replicate m c" "c_close cdl = c" "bb_period s = int p"
    "Suc m < p" "p \<le> 100"
  shows "mr_on_candle cdl s = Inr (None, s\<lparr>price_history := replicate (Suc m) c\<rparr>)"
proof -
  have m: "m \<le> 100" and mn: "min (Suc m) 100 = Suc m" using assms(4,5) by simp_all
  have b: "calculate_bollinger_bands (s\<lparr>price_history := replicate (Suc m) c\<rparr>)
             (replicate (Suc m) c) = Inr None"
    using assms(3,4) by (simp add: calculate_bollinger_bands_def)
  show ?thesis
    unfolding mr_on_candle_const [OF assms(1,2) m] mn b by (simp add: bind_err_def)
qed

lemma step_buy:
  assumes "price_history s = replicate m c" "c_close cdl = c" "bb_period s = int p"
    "1 \<le> p" "p \<le> Suc m" "m \<le> 100" "p \<le> 100" "c \<noteq> 0" "position s = None"
  shows "mr_on_candle cdl s =
           Inr (Some \<lparr>sig_action = ''BUY'', sig_price = c, sig_upper = c,
                       sig_middle = c, sig_lower = c\<rparr>,
                s\<lparr>price_history := replicate (min (Suc m) 100) c,
                  position := Some \<lparr>sp_side = ''BUY'', sp_entry_price = c,
                                     sp_quantity = 1, sp_entry_time = c_time cdl\<rparr>\<rparr>)"
proof -
  have pm: "p \<le> min (Suc m) 100" using assms(5,7) by simp
  have b: "calculate_bollinger_bands (s\<lparr>price_history := replicate (min (Suc m) 100) c\<rparr>)
             (replicate (min (Suc m) 100) c) = Inr (Some (c, c, c))"
    by (rule bands_const [OF assms(4) _ pm]) (simp add: assms(3))
  show ?thesis
    unfolding mr_on_candle_const [OF assms(1,2,6)] b
    using assms(8,9,2) by (simp add: bind_err_def handle_buy_signal_flat)
qed

lemma step_sell:
  assumes "price_history s = replicate m c" "c_close cdl = c" "bb_period s = int p"
    "1 \<le> p" "p \<le> Suc m" "m \<le> 100" "p \<le> 100" "c \<noteq> 0" "position s \<noteq> None"
  shows "mr_on_candle cdl s =
           Inr (Some \<lparr>sig_action = ''SELL'', sig_price = c, sig_upper = c,
                       sig_middle = c, sig_lower = c\<rparr>,
                handle_sell_signal cdl 1 (s\<lparr>price_history := replicate (min (Suc m) 100) c\<rparr>))"
proof -
  have pm: "p \<le> min (Suc m) 100" using assms(5,7) by simp
  have b: "calculate_bollinger_bands (s\<lparr>price_history := replicate (min (Suc m) 100) c\<rparr>)
             (replicate (min (Suc m) 100) c) = Inr (Some (c, c, c))"
    by (rule bands_const [OF assms(4) _ pm]) (simp add: assms(3))
  show ?thesis
    unfolding mr_on_candle_const [OF assms(1,2,6)] b
    using assms(8,9) by (simp add: bind_err_def)
qed

lemma sell_phase:
  assumes "\<forall>x\<in>set cs. c_close x = c" "c \<noteq> 0" "1 \<le> p" "p \<le> 100"
    "bb_period s = int p" "price_history s = replicate m c" "p \<le> Suc m" "m \<le> 100"
    "position s \<noteq> None"
  shows "\<exists>sgs s'. generate_signals cs s = Inr (sgs, s')
           \<and> map sig_action sgs = replicate (length cs) ''SELL''"
  using assms
proof (induction cs arbitrary: s m)
  case Nil
  then show ?case by simp
next
  case (Cons cdl cs)
  let ?s1 = "handle_sell_signal cdl 1 (s\<lparr>price_history := replicate (min (Suc m) 100) c\<rparr>)"
  have cl: "c_close cdl = c" using Cons.prems(1) by simp
  have step: "mr_on_candle cdl s =
           Inr (Some \<lparr>sig_action = ''SELL'', sig_price = c, sig_upper = c,
                       sig_middle = c, sig_lower = c\<rparr>, ?s1)"
    by (rule step_sell [OF Cons.prems(6) cl Cons.prems(5) Cons.prems(3) Cons.prems(7)
          Cons.prems(8) Cons.prems(4) Cons.prems(2) Cons.prems(9)])
  have "\<exists>sgs s'. generate_signals cs ?s1 = Inr (sgs, s')
           \<and> map sig_action sgs = replicate (length cs) ''SELL''"
  proof (rule Cons.IH [where m = "min (Suc m) 100"])
    show "\<forall>x\<in>set cs. c_close x = c" using Cons.prems(1) by simp
    show "bb_period ?s1 = int p" by (simp add: handle_sell_signal_ext Cons.prems(5))
    show "price_history ?s1 = replicate (min (Suc m) 100) c"
      by (simp add: handle_sell_signal_ext)
    show "p \<le> Suc (min (Suc m) 100)" using Cons.prems(7,4) by simp
    show "position ?s1 \<noteq> None" by (rule handle_sell_signal_ext)
  qed (use Cons.prems in simp_all)
  then obtain sgs s' where "generate_signals cs ?s1 = Inr (sgs, s')"
    "map sig_action sgs = replicate (length cs) ''SELL''" by blast
  then show ?case by (simp add: step bind_err_def)
qed

lemma warm_phase:
  assumes "\<forall>x\<in>set cs. c_close x = c" "c \<noteq> 0" "1 \<le> p" "p \<le> 100"
    "bb_period s = int p" "price_history s = replicate m c" "m < p"
    "position s = None"
  shows "\<exists>sgs s'. generate_signals cs s = Inr (sgs, s')
           \<and> map sig_action sgs =
               (if m + length cs < p then [] else ''BUY'' # replicate (m + length cs - p) ''SELL'')
           \<and> (m + length cs < p \<longrightarrow> position s' = None)
           \<and> (m + length cs = p \<longrightarrow> position s' =
                 Some \<lparr>sp_side = ''BUY'', sp_entry_price = c, sp_quantity = 1,
                       sp_entry_time = c_time (last cs)\<rparr>)"
  using assms
proof (induction cs arbitrary: s m)
  case Nil
  then show ?case by simp
next
  case (Cons cdl cs)
  have cl: "c_close cdl = c" using Cons.prems(1) by simp
  have rest: "\<forall>x\<in>set cs. c_close x = c" using Cons.prems(1) by simp
  show ?case
  proof (cases "Suc m < p")
    case True
    let ?s1 = "s\<lparr>price_history := replicate (Suc m) c\<rparr>"
    have step: "mr_on_candle cdl s = Inr (None, ?s1)"
      by (rule step_warm [OF Cons.prems(6) cl Cons.prems(5) True Cons.prems(4)])
    have "\<exists>sgs s'. generate_signals cs ?s1 = Inr (sgs, s')
           \<and> map sig_action sgs =
               (if Suc m + length cs < p then []
                else ''BUY'' # replicate (Suc m + length cs - p) ''SELL'')
           \<and> (Suc m + length cs < p \<longrightarrow> position s' = None)
           \<and> (Suc m + length cs = p \<longrightarrow> position s' =
                 Some \<lparr>sp_side = ''BUY'', sp_entry_price = c, sp_quantity = 1,
                       sp_entry_time = c_time (last cs)\<rparr>)"
      by (rule Cons.IH [OF rest Cons.prems(2,3,4)])
         (use Cons.prems True in simp_all)
    then obtain sgs s' where g: "generate_signals cs ?s1 = Inr (sgs, s')"
      and a: "map sig_action sgs =
               (if Suc m + length cs < p then []
                else ''BUY'' # replicate (Suc m + length cs - p) ''SELL'')"
      and f: "Suc m + length cs < p \<longrightarrow> position s' = None"
      and l: "Suc m + length cs = p \<longrightarrow> position s' =
                 Some \<lparr>sp_side = ''BUY'', sp_entry_price = c, sp_quantity = 1,
                       sp_entry_time = c_time (last cs)\<rparr>"
      by blast
    have ne: "Suc m + length cs = p \<Longrightarrow> cs \<noteq> []" using True by auto
    from g a f l ne show ?thesis by (auto simp: step bind_err_def)
  next
    case False
    with Cons.prems(7) have mp: "Suc m = p" by simp
    let ?s1 = "s\<lparr>price_history := replicate (min (Suc m) 100) c,
                  position := Some \<lparr>sp_side = ''BUY'', sp_entry_price = c,
                                     sp_quantity = 1, sp_entry_time = c_time cdl\<rparr>\<rparr>"
    have m100: "m \<le> 100" using mp Cons.prems(4) by simp
    have step: "mr_on_candle cdl s =
           Inr (Some \<lparr>sig_action = ''BUY'', sig_price = c, sig_upper = c,
                       sig_middle = c, sig_lower = c\<rparr>, ?s1)"
      by (rule step_buy [OF Cons.prems(6) cl Cons.prems(5) Cons.prems(3) _ m100
            Cons.prems(4) Cons.prems(2) Cons.prems(8)]) (simp add: mp)
    have "\<exists>sgs s'. generate_signals cs ?s1 = Inr (sgs, s')
           \<and> map sig_action sgs = replicate (length cs) ''SELL''"
    proof (rule sell_phase [OF rest Cons.prems(2,3,4), where m = "min (Suc m) 100"])
      show "bb_period ?s1 = int p" by (simp add: Cons.prems(5))
      show "price_history ?s1 = replicate (min (Suc m) 100) c" by simp
      show "p \<le> Suc (min (Suc m) 100)" using mp Cons.prems(4) by simp
      show "position ?s1 \<noteq> None" by simp
    qed simp
    then obtain sgs s' where g: "generate_signals cs ?s1 = Inr (sgs, s')"
      and a: "map sig_action sgs = replicate (length cs) ''SELL''" by blast
    have empty: "cs = []" if "m + length (cdl # cs) = p"
    proof -
      from that mp have "length cs = 0" by (simp del: length_0_conv)
      then show ?thesis by simp
    qed
    from g a mp empty show ?thesis by (auto simp: step bind_err_def)
  qed
qed


lemma init_fields:
  "bb_period (ScalpingMeanReversionStrategy_init sy p k) = p"
  "price_history (ScalpingMeanReversionStrategy_init sy p k) = []"
  "position (ScalpingMeanReversionStrategy_init sy p k) = None"
  by (simp_all add: ScalpingMeanReversionStrategy_init_def)

text \<open>
  C6 as stated fails: on a constant series the bands do collapse, but the entry test is
  \<open>close <= lower\<close>, which holds with equality. With the default parameters
  (\<open>bb_period = 20\<close>, \<open>bb_std = 2.0\<close>) twenty candles closing at 100 make the
  twentieth \<open>on_candle\<close> return a BUY.
\<close>

theorem constant_series_buy_counterexample:
  "map_sum id (map sig_action \<circ> fst)
     (generate_signals (map (flat_candle ''NSE:TCS-EQ'' 100) [0..<20])
        (ScalpingMeanReversionStrategy_init ''NSE:TCS-EQ'' 20 2)) = Inr [''BUY'']"
proof -
  have "\<exists>sgs s'. generate_signals (map (flat_candle ''NSE:TCS-EQ'' 100) [0..<20])
                     (ScalpingMeanReversionStrategy_init ''NSE:TCS-EQ'' 20 2) = Inr (sgs, s')
           \<and> map sig_action sgs =
               (if 0 + length (map (flat_candle ''NSE:TCS-EQ'' 100) [0..<20]) < 20 then []
                else ''BUY'' # replicate (0 + length (map (flat_candle ''NSE:TCS-EQ'' 100) [0..<20]) - 20) ''SELL'')
           \<and> (0 + length (map (flat_candle ''NSE:TCS-EQ'' 100) [0..<20]) < 20 \<longrightarrow> position s' = None)
           \<and> (0 + length (map (flat_candle ''NSE:TCS-EQ'' 100) [0..<20]) = 20 \<longrightarrow> position s' =
                 Some \<lparr>sp_side = ''BUY'', sp_entry_price = 100, sp_quantity = 1,
                       sp_entry_time = c_time (last (map (flat_candle ''NSE:TCS-EQ'' 100) [0..<20]))\<rparr>)"
    by (rule warm_phase [where p = 20 and m = 0 and c = 100])
       (simp_all add: init_fields flat_candle_def)
  then obtain sgs s' where
    "generate_signals (map (flat_candle ''NSE:TCS-EQ'' 100) [0..<20])
        (ScalpingMeanReversionStrategy_init ''NSE:TCS-EQ'' 20 2) = Inr (sgs, s')"
    "map sig_action sgs = [''BUY'']"
    by auto
  then show ?thesis by simp
qed

text \<open>
  C6, amended. For a constant price series at a non-zero integer-valued price \<open>n\<close> with
  \<open>\<bar>n\<bar> * bb_period < 2^53\<close> (every partial sum of the window is then an integer below
  \<open>2^53\<close>, so the float sum, mean, deviations and bands are computed exactly, as for
  100.0), fed candle by candle to the mean-reversion strategy starting flat, with
  \<open>1 \<le> bb_period \<le> 100\<close>: the bands collapse to upper = middle = lower = the price; no
  signal fires and the strategy stays flat while fewer than \<open>bb_period\<close> candles have
  been fed; the candle number \<open>bb_period\<close> returns BUY (the test \<open>close <= lower\<close> holds
  with equality) and opens a long position at that price; every later candle returns
  SELL. For a price whose float mean is not the price itself (0.1, say) rounding decides
  and nothing is stated.
\<close>

theorem constant_series_buy_once:
  assumes "\<forall>x\<in>set cs. c_close x = of_int n" "n \<noteq> 0" "1 \<le> p" "p \<le> 100"
    "\<bar>n\<bar> * int p < 2 ^ 53"
  shows "(\<forall>m\<ge>p. calculate_bollinger_bands (ScalpingMeanReversionStrategy_init sy (int p) k)
                    (replicate m (of_int n)) = Inr (Some (of_int n, of_int n, of_int n)))
     \<and> (\<exists>sgs s'. generate_signals cs (ScalpingMeanReversionStrategy_init sy (int p) k)
                    = Inr (sgs, s')
          \<and> map sig_action sgs =
              (if length cs < p then [] else ''BUY'' # replicate (length cs - p) ''SELL'')
          \<and> (length cs < p \<longrightarrow> position s' = None)
          \<and> (length cs = p \<longrightarrow> position s' =
                Some \<lparr>sp_side = ''BUY'', sp_entry_price = of_int n, sp_quantity = 1,
                      sp_entry_time = c_time (last cs)\<rparr>))"
proof -
  have c0: "(of_int n :: real) \<noteq> 0" using assms(2) by simp
  have bands: "\<forall>m\<ge>p. calculate_bollinger_bands (ScalpingMeanReversionStrategy_init sy (int p) k)
                    (replicate m (of_int n)) = Inr (Some (of_int n, of_int n, of_int n))"
    using assms(3) by (simp add: bands_const init_fields)
  have p0: "0 < p" using assms(3) by simp
  have ph: "price_history (ScalpingMeanReversionStrategy_init sy (int p) k)
              = replicate 0 (of_int n)"
    by (simp add: init_fields)
  have run: "\<exists>sgs s'. generate_signals cs (ScalpingMeanReversionStrategy_init sy (int p) k)
                    = Inr (sgs, s')
          \<and> map sig_action sgs =
              (if length cs < p then [] else ''BUY'' # replicate (length cs - p) ''SELL'')
          \<and> (length cs < p \<longrightarrow> position s' = None)
          \<and> (length cs = p \<longrightarrow> position s' =
                Some \<lparr>sp_side = ''BUY'', sp_entry_price = of_int n, sp_quantity = 1,
                      sp_entry_time = c_time (last cs)\<rparr>)"
    using warm_phase [OF assms(1) c0 assms(3,4) init_fields(1) ph p0 init_fields(3)]
    unfolding add_0 by this
  from bands run show ?thesis by (rule conjI)
qed

theorem constant_series_buy_once_witness:
  "calculate_bollinger_bands (ScalpingMeanReversionStrategy_init ''NSE:TCS-EQ'' 2 2)
       [100, 100] = Inr (Some (100, 100, 100))
   \<and> map_sum id (map sig_action \<circ> fst)
       (generate_signals (map (flat_candle ''NSE:TCS-EQ'' 100) [0..<3])
          (ScalpingMeanReversionStrategy_init ''NSE:TCS-EQ'' 2 2)) = Inr [''BUY'', ''SELL'']"
proof -
  have h: "\<forall>x\<in>set (map (flat_candle ''NSE:TCS-EQ'' 100) [0..<3]). c_close x = of_int 100"
    by (simp add: flat_candle_def)
  have c: "(100::int) \<noteq> 0" and p1: "1 \<le> (2::nat)" and p2: "(2::nat) \<le> 100"
    and exact: "\<bar>100::int\<bar> * int 2 < 2 ^ 53" by simp_all
  note th = constant_series_buy_once [OF h c p1 p2 exact, of "''NSE:TCS-EQ''" 2]
  from th have "calculate_bollinger_bands (ScalpingMeanReversionStrategy_init ''NSE:TCS-EQ'' 2 2)
       (replicate 2 100) = Inr (Some (100, 100, 100))"
    by simp
  moreover from th obtain sgs s' where
    "generate_signals (map (flat_candle ''NSE:TCS-EQ'' 100) [0..<3])
          (ScalpingMeanReversionStrategy_init ''NSE:TCS-EQ'' 2 2) = Inr (sgs, s')"
    "map sig_action sgs = [''BUY'', ''SELL'']"
    by auto
  ultimately show ?thesis by (simp add: numeral_2_eq_2)
qed

section \<open>Backtest driver: end of the sequence\<close>

text \<open>
  C4. \<open>BacktestEngine.run\<close> feeds the candles and reads the statistics; it has no
  finalize step. With \<open>bb_period = 2\<close> and two candles closing at 100 the second
  candle opens a long position, which is still open when \<open>run\<close> returns, and the
  result reports no trade: the position was force-closed zero times.
\<close>

theorem run_leaves_position_open:
  "run mr_on_candle (ScalpingMeanReversionStrategy_init ''NSE:TCS-EQ'' 2 2)
       [flat_candle ''NSE:TCS-EQ'' 100 0, flat_candle ''NSE:TCS-EQ'' 100 1]
     = Inr (\<lparr>br_total_trades = 0, br_pnl = 0, br_win_rate = 0, br_wins = 0, br_losses = 0,
             br_avg_win = Some 0, br_avg_loss = Some 0\<rparr>,
            \<lparr>symbol = ''NSE:TCS-EQ'', name = ''scalping_mean_reversion'',
             position = Some \<lparr>sp_side = ''BUY'', sp_entry_price = 100, sp_quantity = 1,
                               sp_entry_time = 1\<rparr>,
             trades = [], bb_period = 2, bb_std = 2, price_history = [100, 100]\<rparr>)"
  by (simp add: run_def mr_on_candle_def calculate_bollinger_bands_def py_slice_from_def
        py_truediv_def bind_err_def Let_def ScalpingMeanReversionStrategy_init_def
        flat_candle_def handle_buy_signal_def strategy_get_stats_def)


section \<open>One open position per owner\<close>

lemma handle_buy_signal_same_side:
  "position s = Some p \<Longrightarrow> sp_side p \<noteq> ''SELL'' \<Longrightarrow> handle_buy_signal cdl q s = s"
  by (simp add: handle_buy_signal_def)

lemma handle_sell_signal_same_side:
  "position s = Some p \<Longrightarrow> sp_side p \<noteq> ''BUY'' \<Longrightarrow> handle_sell_signal cdl q s = s"
  by (simp add: handle_sell_signal_def)

lemma handle_buy_signal_flip:
  "position s = Some p \<Longrightarrow> sp_side p = ''SELL'' \<Longrightarrow>
     handle_buy_signal cdl q s =
       s\<lparr>trades := trades s @
            [\<lparr>st_symbol = symbol s, st_side = ''SELL'', st_entry_price = sp_entry_price p,
              st_exit_price = c_close cdl, st_quantity = sp_quantity p,
              st_pnl = (sp_entry_price p - c_close cdl) * of_int (sp_quantity p),
              st_entry_time = sp_entry_time p, st_exit_time = c_time cdl\<rparr>],
         position := Some \<lparr>sp_side = ''BUY'', sp_entry_price = c_close cdl,
                            sp_quantity = q, sp_entry_time = c_time cdl\<rparr>\<rparr>"
  by (simp add: handle_buy_signal_def strategy_close_position_def Let_def)

lemma handle_sell_signal_flip:
  "position s = Some p \<Longrightarrow> sp_side p = ''BUY'' \<Longrightarrow>
     handle_sell_signal cdl q s =
       s\<lparr>trades := trades s @
            [\<lparr>st_symbol = symbol s, st_side = ''BUY'', st_entry_price = sp_entry_price p,
              st_exit_price = c_close cdl, st_quantity = sp_quantity p,
              st_pnl = (c_close cdl - sp_entry_price p) * of_int (sp_quantity p),
              st_entry_time = sp_entry_time p, st_exit_time = c_time cdl\<rparr>],
         position := Some \<lparr>sp_side = ''SELL'', sp_entry_price = c_close cdl,
                            sp_quantity = q, sp_entry_time = c_time cdl\<rparr>\<rparr>"
  by (simp add: handle_sell_signal_def strategy_close_position_def Let_def)

lemma open_position_distinct:
  "distinct (map fst (open_positions rm)) \<Longrightarrow>
     distinct (map fst (open_positions (open_position sy sd price qty rm)))"
  by (simp add: open_position_def Let_def distinct_update)

lemma close_position_distinct:
  "distinct (map fst (open_positions rm)) \<Longrightarrow>
     distinct (map fst (open_positions (snd (close_position sy x rm))))"
  by (simp add: close_position_def Let_def distinct_delete split: option.splits)

lemma count_key_update:
  "distinct (map fst al) \<Longrightarrow> length (filter (\<lambda>e. fst e = k) (AList.update k v al)) = 1"
  by (induction al) (auto simp: filter_empty_conv image_iff)

lemma count_key_delete:
  "length (filter (\<lambda>e. fst e = k) (AList.delete k al)) = 0"
  by (induction al) auto


lemma count_key_zero: "k \<notin> fst ` set al \<Longrightarrow> length (filter (\<lambda>e. fst e = k) al) = 0"
  by (induction al) auto

lemma count_key_pos: "k \<in> fst ` set al \<Longrightarrow> 0 < length (filter (\<lambda>e. fst e = k) al)"
  by (induction al) auto

lemma distinct_keys_iff:
  "distinct (map fst al) \<longleftrightarrow> (\<forall>k. length (filter (\<lambda>e. fst e = k) al) \<le> 1)"
proof (induction al)
  case Nil
  then show ?case by simp
next
  case (Cons a al)
  show ?case
  proof
    assume d: "distinct (map fst (a # al))"
    then have "\<forall>k. length (filter (\<lambda>e. fst e = k) al) \<le> 1" using Cons.IH by simp
    moreover have "length (filter (\<lambda>e. fst e = fst a) al) = 0"
      using d by (intro count_key_zero) simp
    ultimately show "\<forall>k. length (filter (\<lambda>e. fst e = k) (a # al)) \<le> 1" by auto
  next
    assume c: "\<forall>k. length (filter (\<lambda>e. fst e = k) (a # al)) \<le> 1"
    have "length (filter (\<lambda>e. fst e = k) al) \<le> 1" for k
      using c [rule_format, of k] by (simp split: if_splits)
    then have "distinct (map fst al)" using Cons.IH by simp
    moreover have "fst a \<notin> fst ` set al"
    proof
      assume "fst a \<in> fst ` set al"
      then have "0 < length (filter (\<lambda>e. fst e = fst a) al)" by (rule count_key_pos)
      with c [rule_format, of "fst a"] show False by simp
    qed
    ultimately show "distinct (map fst (a # al))" by simp
  qed
qed

lemma positions_for_invariant:
  "(\<forall>k. positions_for k rm \<le> 1) \<longleftrightarrow> distinct (map fst (open_positions rm))"
  by (simp add: positions_for_def distinct_keys_iff)

text \<open>
  C2. A strategy holds its position in one optional field, so it has at most one. A
  same-side open is a no-op; an opposite-side open appends exactly one closing trade
  (PnL against the candle's close) and then replaces the position; closing leaves no
  position. In the risk manager every symbol has at most one entry in \<open>open_positions\<close>:
  this holds initially and is preserved by \<open>open_position\<close> and \<open>close_position\<close>,
  after which the symbol has exactly one entry, respectively none.
\<close>

theorem one_open_position_per_owner:
  "(position s = Some p \<and> sp_side p = ''BUY'' \<longrightarrow> handle_buy_signal cdl q s = s)
   \<and> (position s = Some p \<and> sp_side p = ''SELL'' \<longrightarrow> handle_sell_signal cdl q s = s)
   \<and> (position s = Some p \<and> sp_side p = ''SELL'' \<longrightarrow>
         handle_buy_signal cdl q s =
           s\<lparr>trades := trades s @
                [\<lparr>st_symbol = symbol s, st_side = ''SELL'', st_entry_price = sp_entry_price p,
                  st_exit_price = c_close cdl, st_quantity = sp_quantity p,
                  st_pnl = (sp_entry_price p - c_close cdl) * of_int (sp_quantity p),
                  st_entry_time = sp_entry_time p, st_exit_time = c_time cdl\<rparr>],
             position := Some \<lparr>sp_side = ''BUY'', sp_entry_price = c_close cdl,
                                sp_quantity = q, sp_entry_time = c_time cdl\<rparr>\<rparr>)
   \<and> (position s = Some p \<and> sp_side p = ''BUY'' \<longrightarrow>
         handle_sell_signal cdl q s =
           s\<lparr>trades := trades s @
                [\<lparr>st_symbol = symbol s, st_side = ''BUY'', st_entry_price = sp_entry_price p,
                  st_exit_price = c_close cdl, st_quantity = sp_quantity p,
                  st_pnl = (c_close cdl - sp_entry_price p) * of_int (sp_quantity p),
                  st_entry_time = sp_entry_time p, st_exit_time = c_time cdl\<rparr>],
             position := Some \<lparr>sp_side = ''SELL'', sp_entry_price = c_close cdl,
                                sp_quantity = q, sp_entry_time = c_time cdl\<rparr>\<rparr>)
   \<and> position (strategy_close_position cdl s) = None
   \<and> (\<forall>k. positions_for k (RiskManager_init cap r pr sl tp) \<le> 1)
   \<and> ((\<forall>k. positions_for k rm \<le> 1) \<longrightarrow>
         (\<forall>k. positions_for k (open_position sy sd price qty rm) \<le> 1)
         \<and> (\<forall>k. positions_for k (snd (close_position sy x rm)) \<le> 1)
         \<and> positions_for sy (open_position sy sd price qty rm) = 1
         \<and> positions_for sy (snd (close_position sy x rm)) = 0)"
proof -
  have same_buy: "position s = Some p \<and> sp_side p = ''BUY'' \<longrightarrow> handle_buy_signal cdl q s = s"
    by (simp add: handle_buy_signal_same_side)
  have same_sell: "position s = Some p \<and> sp_side p = ''SELL'' \<longrightarrow> handle_sell_signal cdl q s = s"
    by (simp add: handle_sell_signal_same_side)
  have closed: "position (strategy_close_position cdl s) = None"
    by (simp add: strategy_close_position_def Let_def split: option.splits)
  have init: "\<forall>k. positions_for k (RiskManager_init cap r pr sl tp) \<le> 1"
    by (simp add: positions_for_def RiskManager_init_def)
  have rm: "(\<forall>k. positions_for k rm \<le> 1) \<longrightarrow>
         (\<forall>k. positions_for k (open_position sy sd price qty rm) \<le> 1)
         \<and> (\<forall>k. positions_for k (snd (close_position sy x rm)) \<le> 1)
         \<and> positions_for sy (open_position sy sd price qty rm) = 1
         \<and> positions_for sy (snd (close_position sy x rm)) = 0"
  proof
    assume "\<forall>k. positions_for k rm \<le> 1"
    then have d: "distinct (map fst (open_positions rm))" by (simp only: positions_for_invariant)
    have inv_open: "\<forall>k. positions_for k (open_position sy sd price qty rm) \<le> 1"
      using open_position_distinct [OF d] by (simp only: positions_for_invariant)
    have inv_close: "\<forall>k. positions_for k (snd (close_position sy x rm)) \<le> 1"
      using close_position_distinct [OF d] by (simp only: positions_for_invariant)
    have "positions_for sy (open_position sy sd price qty rm) = 1"
      using d by (simp add: positions_for_def open_position_def Let_def count_key_update)
    moreover have "positions_for sy (snd (close_position sy x rm)) = 0"
    proof (cases "map_of (open_positions rm) sy")
      case None
      then have "sy \<notin> fst ` set (open_positions rm)" by (simp add: map_of_eq_None_iff)
      then have "length (filter (\<lambda>e. fst e = sy) (open_positions rm)) = 0"
        by (rule count_key_zero)
      with None show ?thesis by (simp add: positions_for_def close_position_def)
    next
      case (Some pos)
      have "length (filter (\<lambda>e. fst e = sy) (AList.delete sy (open_positions rm))) = 0"
        by (rule count_key_delete)
      with Some show ?thesis by (simp add: positions_for_def close_position_def Let_def)
    qed
    ultimately show "(\<forall>k. positions_for k (open_position sy sd price qty rm) \<le> 1)
         \<and> (\<forall>k. positions_for k (snd (close_position sy x rm)) \<le> 1)
         \<and> positions_for sy (open_position sy sd price qty rm) = 1
         \<and> positions_for sy (snd (close_position sy x rm)) = 0"
      using inv_open inv_close by blast
  qed
  from same_buy same_sell closed init rm
       handle_buy_signal_flip [of s p cdl q] handle_sell_signal_flip [of s p cdl q]
  show ?thesis by blast
qed

theorem one_open_position_per_owner_witness:
  "handle_buy_signal (flat_candle ''NSE:TCS-EQ'' 90 5) 1
      ((ScalpingMeanReversionStrategy_init ''NSE:TCS-EQ'' 20 2)
         \<lparr>position := Some \<lparr>sp_side = ''SELL'', sp_entry_price = 100, sp_quantity = 1,
                            sp_entry_time = 0\<rparr>\<rparr>)
     = (ScalpingMeanReversionStrategy_init ''NSE:TCS-EQ'' 20 2)
         \<lparr>trades := [\<lparr>st_symbol = ''NSE:TCS-EQ'', st_side = ''SELL'', st_entry_price = 100,
                      st_exit_price = 90, st_quantity = 1, st_pnl = 10,
                      st_entry_time = 0, st_exit_time = 5\<rparr>],
          position := Some \<lparr>sp_side = ''BUY'', sp_entry_price = 90, sp_quantity = 1,
                             sp_entry_time = 5\<rparr>\<rparr>
   \<and> positions_for ''NSE:TCS-EQ''
        (open_position ''NSE:TCS-EQ'' ''BUY'' 100 10 RiskManager_default) = 1
   \<and> positions_for ''NSE:TCS-EQ''
        (snd (close_position ''NSE:TCS-EQ'' 110 RiskManager_default)) = 0"
proof -
  let ?s = "(ScalpingMeanReversionStrategy_init ''NSE:TCS-EQ'' 20 2)
         \<lparr>position := Some \<lparr>sp_side = ''SELL'', sp_entry_price = 100, sp_quantity = 1,
                            sp_entry_time = 0\<rparr>\<rparr>"
  let ?p = "\<lparr>sp_side = ''SELL'', sp_entry_price = 100, sp_quantity = 1, sp_entry_time = 0\<rparr>"
  have pos: "position ?s = Some ?p \<and> sp_side ?p = ''SELL''" by simp
  have inv: "\<forall>k. positions_for k RiskManager_default \<le> 1"
    by (simp add: positions_for_def RiskManager_default_def RiskManager_init_def)
  note th = one_open_position_per_owner
      [where s = ?s and p = ?p and cdl = "flat_candle ''NSE:TCS-EQ'' 90 5" and q = 1
         and rm = RiskManager_default and sy = "''NSE:TCS-EQ''" and sd = "''BUY''"
         and price = 100 and qty = 10 and x = 110]
  from th pos have flip: "handle_buy_signal (flat_candle ''NSE:TCS-EQ'' 90 5) 1 ?s =
           ?s\<lparr>trades := trades ?s @
                [\<lparr>st_symbol = symbol ?s, st_side = ''SELL'', st_entry_price = sp_entry_price ?p,
                  st_exit_price = c_close (flat_candle ''NSE:TCS-EQ'' 90 5), st_quantity = sp_quantity ?p,
                  st_pnl = (sp_entry_price ?p - c_close (flat_candle ''NSE:TCS-EQ'' 90 5)) * of_int (sp_quantity ?p),
                  st_entry_time = sp_entry_time ?p, st_exit_time = c_time (flat_candle ''NSE:TCS-EQ'' 90 5)\<rparr>],
             position := Some \<lparr>sp_side = ''BUY'', sp_entry_price = c_close (flat_candle ''NSE:TCS-EQ'' 90 5),
                                sp_quantity = 1, sp_entry_time = c_time (flat_candle ''NSE:TCS-EQ'' 90 5)\<rparr>\<rparr>"
    by blast
  from th inv have cnt: "positions_for ''NSE:TCS-EQ''
        (open_position ''NSE:TCS-EQ'' ''BUY'' 100 10 RiskManager_default) = 1"
    "positions_for ''NSE:TCS-EQ''
        (snd (close_position ''NSE:TCS-EQ'' 110 RiskManager_default)) = 0"
    by blast+
  from flip cnt show ?thesis
    by (simp add: flat_candle_def ScalpingMeanReversionStrategy_init_def)
qed

section \<open>Ticks of one bar interval\<close>

lemma volume_or_zero: "volume_or v a = (if volume_or v 0 \<noteq> 0 then volume_or v 0 else a)"
  by (simp add: volume_or_def split: option.splits)

lemma process_tick_new:
  assumes "wf_tick sy m (now, tick)" "sy \<in> set (symbols e)" "sy \<noteq> []"
    "case current_candles e sy of None \<Rightarrow> True | Some cur \<Rightarrow> lc_timestamp cur \<noteq> m"
  shows "current_candles (process_single_tick now tick e) sy =
           Some \<lparr>lc_symbol = sy, lc_timestamp = m, lc_open = tick_price (now, tick),
                 lc_high = tick_price (now, tick), lc_low = tick_price (now, tick),
                 lc_close = tick_price (now, tick),
                 lc_volume = volume_or (tick_volume tick) 0, lc_timeframe = ''1m''\<rparr>"
    and "symbols (process_single_tick now tick e) = symbols e"
  using assms
  by (auto simp: wf_tick_def process_single_tick_def tick_price_def Let_def
           split: option.splits)

lemma process_tick_update:
  assumes "wf_tick sy m (now, tick)" "sy \<in> set (symbols e)" "sy \<noteq> []"
    "current_candles e sy = Some cur" "lc_timestamp cur = m"
  shows "current_candles (process_single_tick now tick e) sy =
           Some (cur\<lparr>lc_high := max (lc_high cur) (tick_price (now, tick)),
                     lc_low := min (lc_low cur) (tick_price (now, tick)),
                     lc_close := tick_price (now, tick),
                     lc_volume := volume_or (tick_volume tick) (lc_volume cur)\<rparr>)"
    and "symbols (process_single_tick now tick e) = symbols e"
  using assms
  by (auto simp: wf_tick_def process_single_tick_def tick_price_def Let_def
           split: option.splits)

lemma on_tick_update:
  assumes "\<forall>nt\<in>set ticks. wf_tick sy m nt" "sy \<in> set (symbols e)" "sy \<noteq> []"
    "current_candles e sy = Some cur" "lc_timestamp cur = m"
  shows "current_candles (on_tick ticks e) sy =
           Some (cur\<lparr>lc_high := foldl max (lc_high cur) (map tick_price ticks),
                     lc_low := foldl min (lc_low cur) (map tick_price ticks),
                     lc_close := last (lc_close cur # map tick_price ticks),
                     lc_volume := foldl (\<lambda>a nt. volume_or (tick_volume (snd nt)) a)
                                    (lc_volume cur) ticks\<rparr>)"
  using assms
proof (induction ticks arbitrary: e cur)
  case Nil
  then show ?case by simp
next
  case (Cons nt ticks)
  obtain now tick where nt: "nt = (now, tick)" by (cases nt)
  let ?cur = "cur\<lparr>lc_high := max (lc_high cur) (tick_price (now, tick)),
                     lc_low := min (lc_low cur) (tick_price (now, tick)),
                     lc_close := tick_price (now, tick),
                     lc_volume := volume_or (tick_volume tick) (lc_volume cur)\<rparr>"
  have wf: "wf_tick sy m (now, tick)" using Cons.prems(1) nt by simp
  note step = process_tick_update [OF wf Cons.prems(2,3,4,5)]
  have "current_candles (on_tick ticks (process_single_tick now tick e)) sy =
           Some (?cur\<lparr>lc_high := foldl max (lc_high ?cur) (map tick_price ticks),
                     lc_low := foldl min (lc_low ?cur) (map tick_price ticks),
                     lc_close := last (lc_close ?cur # map tick_price ticks),
                     lc_volume := foldl (\<lambda>a nt. volume_or (tick_volume (snd nt)) a)
                                    (lc_volume ?cur) ticks\<rparr>)"
  proof (rule Cons.IH)
    show "\<forall>nt\<in>set ticks. wf_tick sy m nt" using Cons.prems(1) by simp
    show "sy \<in> set (symbols (process_single_tick now tick e))"
      using step(2) Cons.prems(2) by simp
    show "current_candles (process_single_tick now tick e) sy = Some ?cur" by (rule step(1))
    show "lc_timestamp ?cur = m" using Cons.prems(5) by simp
  qed (rule Cons.prems(3))
  then show ?case by (simp add: nt)
qed

lemma foldl_volume:
  "foldl (\<lambda>a nt. volume_or (tick_volume (snd nt)) a) a ticks =
     (case filter (\<lambda>v. v \<noteq> 0) (map (\<lambda>nt. volume_or (tick_volume (snd nt)) 0) ticks) of
        [] \<Rightarrow> a
      | v # vs \<Rightarrow> last (v # vs))"
proof (induction ticks arbitrary: a)
  case Nil
  then show ?case by simp
next
  case (Cons nt ticks)
  define g where "g = volume_or (tick_volume (snd nt)) 0"
  have v: "volume_or (tick_volume (snd nt)) b = (if g \<noteq> 0 then g else b)" for b
    unfolding g_def by (rule volume_or_zero)
  show ?case
  proof (cases "g = 0")
    case True
    then show ?thesis by (simp add: Cons.IH v)
  next
    case False
    then show ?thesis by (simp add: Cons.IH v split: list.splits)
  qed
qed

lemma foldl_max_Max: "foldl max (x::real) xs = Max (set (x # xs))"
proof -
  have "(\<lambda>y s. max s y) = (max :: real \<Rightarrow> real \<Rightarrow> real)"
    by (intro ext) (rule max.commute)
  then show ?thesis unfolding Max.set_eq_fold foldl_conv_fold by simp
qed

lemma foldl_min_Min: "foldl min (x::real) xs = Min (set (x # xs))"
proof -
  have "(\<lambda>y s. min s y) = (min :: real \<Rightarrow> real \<Rightarrow> real)"
    by (intro ext) (rule min.commute)
  then show ?thesis unfolding Min.set_eq_fold foldl_conv_fold by simp
qed


text \<open>
  C5 as stated fails in its volume part: the update branch assigns
  \<open>int(volume) if volume else candle['volume']\<close>, not a maximum. Two ticks in one
  minute reporting volumes 500 and then 300 leave the candle with volume 300.
\<close>

theorem candle_volume_counterexample:
  "map_option lc_volume
      (current_candles
         (on_tick [(0, mk_tick ''NSE:TCS-EQ'' 100 500), (1000000, mk_tick ''NSE:TCS-EQ'' 101 300)]
            RealtimeTradingEngine_init) ''NSE:TCS-EQ'') = Some 300
   \<and> map_option lc_volume
      (current_candles
         (on_tick [(0, mk_tick ''NSE:TCS-EQ'' 100 500), (1000000, mk_tick ''NSE:TCS-EQ'' 101 300)]
            RealtimeTradingEngine_init) ''NSE:TCS-EQ'') \<noteq> Some (max 500 300)"
  by (simp add: process_single_tick_def RealtimeTradingEngine_init_def mk_tick_def
        tick_symbol_def tick_ltp_def tick_volume_def py_or_def volume_or_def minute_start_def
        Let_def)

text \<open>
  C5, amended. For a non-empty sequence of well-formed ticks of one symbol within one
  bar interval, starting with no in-progress candle of that interval, the in-progress
  candle has open = first price, close = last price, high = maximum and low = minimum of
  the prices, and volume = the latest non-zero reported volume (0 when no tick reports
  one): a tick that reports a volume overwrites the candle's, a tick that reports none or
  zero leaves it.
\<close>

theorem candle_from_ticks:
  assumes "ticks \<noteq> []" "\<forall>nt\<in>set ticks. wf_tick sy m nt" "sy \<in> set (symbols e)" "sy \<noteq> []"
    "case current_candles e sy of None \<Rightarrow> True | Some cur \<Rightarrow> lc_timestamp cur \<noteq> m"
  shows "current_candles (on_tick ticks e) sy =
           Some \<lparr>lc_symbol = sy, lc_timestamp = m,
                 lc_open = tick_price (hd ticks),
                 lc_high = Max (set (map tick_price ticks)),
                 lc_low = Min (set (map tick_price ticks)),
                 lc_close = tick_price (last ticks),
                 lc_volume = latest_volume ticks, lc_timeframe = ''1m''\<rparr>"
proof -
  from assms(1) obtain nt rest where ticks: "ticks = nt # rest" by (cases ticks) auto
  obtain now tick where nt: "nt = (now, tick)" by (cases nt)
  let ?c0 = "\<lparr>lc_symbol = sy, lc_timestamp = m, lc_open = tick_price (now, tick),
                 lc_high = tick_price (now, tick), lc_low = tick_price (now, tick),
                 lc_close = tick_price (now, tick),
                 lc_volume = volume_or (tick_volume tick) 0, lc_timeframe = ''1m''\<rparr>"
  have wf: "wf_tick sy m (now, tick)" using assms(2) ticks nt by simp
  note first = process_tick_new [OF wf assms(3,4,5)]
  have upd: "current_candles (on_tick rest (process_single_tick now tick e)) sy =
           Some (?c0\<lparr>lc_high := foldl max (lc_high ?c0) (map tick_price rest),
                     lc_low := foldl min (lc_low ?c0) (map tick_price rest),
                     lc_close := last (lc_close ?c0 # map tick_price rest),
                     lc_volume := foldl (\<lambda>a nt. volume_or (tick_volume (snd nt)) a)
                                    (lc_volume ?c0) rest\<rparr>)"
  proof (rule on_tick_update)
    show "\<forall>nt\<in>set rest. wf_tick sy m nt" using assms(2) ticks by simp
    show "sy \<in> set (symbols (process_single_tick now tick e))"
      using first(2) assms(3) by simp
    show "current_candles (process_single_tick now tick e) sy = Some ?c0" by (rule first(1))
    show "lc_timestamp ?c0 = m" by simp
  qed (rule assms(4))
  have hi: "foldl max (tick_price (now, tick)) (map tick_price rest)
              = Max (set (map tick_price ticks))"
    by (simp add: foldl_max_Max ticks nt)
  have lo: "foldl min (tick_price (now, tick)) (map tick_price rest)
              = Min (set (map tick_price ticks))"
    by (simp add: foldl_min_Min ticks nt)
  have cl: "last (tick_price (now, tick) # map tick_price rest) = tick_price (last ticks)"
    unfolding ticks nt by (simp add: last_map)
  have vol: "foldl (\<lambda>a nt. volume_or (tick_volume (snd nt)) a)
               (volume_or (tick_volume tick) 0) rest = latest_volume ticks"
    unfolding latest_volume_def ticks nt foldl_volume
    by (simp split: list.splits)
  have "current_candles (on_tick ticks e) sy =
          current_candles (on_tick rest (process_single_tick now tick e)) sy"
    by (simp add: ticks nt)
  also note upd
  finally show ?thesis
    using hi lo cl vol by (simp add: ticks nt)
qed

theorem candle_from_ticks_witness:
  "current_candles
      (on_tick [(0, mk_tick ''NSE:TCS-EQ'' 100 500), (1000000, mk_tick ''NSE:TCS-EQ'' 105 0),
                (2000000, mk_tick ''NSE:TCS-EQ'' 95 700)]
         RealtimeTradingEngine_init) ''NSE:TCS-EQ''
     = Some \<lparr>lc_symbol = ''NSE:TCS-EQ'', lc_timestamp = 0, lc_open = 100, lc_high = 105,
             lc_low = 95, lc_close = 95, lc_volume = 700, lc_timeframe = ''1m''\<rparr>"
proof -
  let ?ticks = "[(0::nat, mk_tick ''NSE:TCS-EQ'' 100 500), (1000000, mk_tick ''NSE:TCS-EQ'' 105 0),
                (2000000, mk_tick ''NSE:TCS-EQ'' 95 700)]"
  have ne: "?ticks \<noteq> []" by simp
  have wf: "\<forall>nt\<in>set ?ticks. wf_tick ''NSE:TCS-EQ'' 0 nt"
    by (simp add: wf_tick_def mk_tick_def tick_symbol_def tick_ltp_def py_or_def
          minute_start_def)
  have mem: "''NSE:TCS-EQ'' \<in> set (symbols RealtimeTradingEngine_init)"
    by (simp add: RealtimeTradingEngine_init_def)
  have nonempty: "''NSE:TCS-EQ'' \<noteq> []" by simp
  have fresh: "case current_candles RealtimeTradingEngine_init ''NSE:TCS-EQ'' of
                 None \<Rightarrow> True | Some cur \<Rightarrow> lc_timestamp cur \<noteq> 0"
    by (simp add: RealtimeTradingEngine_init_def)
  have prices: "map tick_price ?ticks = [100, 105, 95]"
    by (simp add: tick_price_def mk_tick_def tick_ltp_def py_or_def)
  have vol: "latest_volume ?ticks = 700"
    by (simp add: latest_volume_def mk_tick_def tick_volume_def py_or_def volume_or_def)
  have p0: "tick_price (hd ?ticks) = 100" and pl: "tick_price (last ?ticks) = 95"
    by (simp_all add: tick_price_def mk_tick_def tick_ltp_def py_or_def)
  from candle_from_ticks [OF ne wf mem nonempty fresh]
  show ?thesis unfolding prices vol p0 pl by simp
qed


section \<open>Consensus quorum\<close>

lemma dominant_signals_quorum:
  "dominant_signals t signals \<noteq> [] \<Longrightarrow>
     2 \<le> length (dominant_signals t signals)
     \<and> ((\<forall>s\<in>set (dominant_signals t signals). as_side s = ''BUY'')
        \<or> (\<forall>s\<in>set (dominant_signals t signals). as_side s = ''SELL''))"
  by (auto simp: dominant_signals_def Let_def split: if_splits)

lemma dominant_signals_two_buy:
  "length (filter (\<lambda>s. as_side s = ''BUY'') signals) = 2 \<Longrightarrow>
     dominant_signals t signals = filter (\<lambda>s. as_side s = ''BUY'') signals"
  by (simp add: dominant_signals_def Let_def)

lemma dominant_signals_split:
  "length (filter (\<lambda>s. as_side s = ''BUY'') signals) \<le> 1 \<Longrightarrow>
   length (filter (\<lambda>s. as_side s = ''SELL'') signals) \<le> 1 \<Longrightarrow>
     dominant_signals t signals = []"
  by (simp add: dominant_signals_def Let_def)

lemma scan_symbol_split:
  "dominant_signals t signals = [] \<Longrightarrow> scan_symbol t sy signals current_price = Inr None"
  by (simp add: scan_symbol_def Let_def)

text \<open>
  C9. In both consensus evaluations a direction is dominant only with at least two
  votes. \<open>AutoTrader.scan_opportunities\<close>: a non-empty dominant list has at least two
  signals, all of one side; with two BUY and one SELL it is the BUY signals; with no side
  reaching two it is empty and no opportunity is appended.
  \<open>RealtimeTradingEngine.check_consensus\<close>: with two BUY votes and one SELL vote and no
  active position it executes a BUY; with no side reaching two votes it executes nothing;
  any trade it executes has at least two votes for its side.
\<close>

theorem consensus_quorum:
  "(dominant_signals t signals \<noteq> [] \<longrightarrow>
      2 \<le> length (dominant_signals t signals)
      \<and> ((\<forall>s\<in>set (dominant_signals t signals). as_side s = ''BUY'')
         \<or> (\<forall>s\<in>set (dominant_signals t signals). as_side s = ''SELL'')))
   \<and> (length (filter (\<lambda>s. as_side s = ''BUY'') signals) = 2
        \<and> length (filter (\<lambda>s. as_side s = ''SELL'') signals) = 1 \<longrightarrow>
        dominant_signals t signals = filter (\<lambda>s. as_side s = ''BUY'') signals)
   \<and> (length (filter (\<lambda>s. as_side s = ''BUY'') signals) \<le> 1
        \<and> length (filter (\<lambda>s. as_side s = ''SELL'') signals) \<le> 1 \<longrightarrow>
        dominant_signals t signals = []
        \<and> scan_symbol t sy signals current_price = Inr None)
   \<and> (sum_list (map buy_vote strategies) = 2 \<and> sum_list (map sell_vote strategies) = 1
        \<and> \<not> active \<longrightarrow>
        check_consensus strategies active close = Some (''BUY'', close))
   \<and> (sum_list (map buy_vote strategies) \<le> 1 \<and> sum_list (map sell_vote strategies) \<le> 1 \<longrightarrow>
        check_consensus strategies active close = None)
   \<and> (\<forall>a c. check_consensus strategies active close = Some (a, c) \<longrightarrow>
        (a = ''BUY'' \<and> 2 \<le> sum_list (map buy_vote strategies))
        \<or> (a = ''SELL'' \<and> 2 \<le> sum_list (map sell_vote strategies)))"
proof -
  have a: "dominant_signals t signals \<noteq> [] \<longrightarrow>
      2 \<le> length (dominant_signals t signals)
      \<and> ((\<forall>s\<in>set (dominant_signals t signals). as_side s = ''BUY'')
         \<or> (\<forall>s\<in>set (dominant_signals t signals). as_side s = ''SELL''))"
    using dominant_signals_quorum by blast
  have b: "length (filter (\<lambda>s. as_side s = ''BUY'') signals) = 2
        \<and> length (filter (\<lambda>s. as_side s = ''SELL'') signals) = 1 \<longrightarrow>
        dominant_signals t signals = filter (\<lambda>s. as_side s = ''BUY'') signals"
    using dominant_signals_two_buy by blast
  have c: "length (filter (\<lambda>s. as_side s = ''BUY'') signals) \<le> 1
        \<and> length (filter (\<lambda>s. as_side s = ''SELL'') signals) \<le> 1 \<longrightarrow>
        dominant_signals t signals = []
        \<and> scan_symbol t sy signals current_price = Inr None"
    using dominant_signals_split scan_symbol_split by blast
  have d: "sum_list (map buy_vote strategies) = 2 \<and> sum_list (map sell_vote strategies) = 1
        \<and> \<not> active \<longrightarrow>
        check_consensus strategies active close = Some (''BUY'', close)"
    by (simp add: check_consensus_def Let_def)
  have e: "sum_list (map buy_vote strategies) \<le> 1 \<and> sum_list (map sell_vote strategies) \<le> 1 \<longrightarrow>
        check_consensus strategies active close = None"
    by (simp add: check_consensus_def Let_def)
  have f: "\<forall>a c. check_consensus strategies active close = Some (a, c) \<longrightarrow>
        (a = ''BUY'' \<and> 2 \<le> sum_list (map buy_vote strategies))
        \<or> (a = ''SELL'' \<and> 2 \<le> sum_list (map sell_vote strategies))"
    by (auto simp: check_consensus_def Let_def split: if_splits)
  from a b c d e f show ?thesis by (intro conjI)
qed

theorem consensus_quorum_witness:
  "dominant_signals (AutoTrader_init ''paper'')
      (collect_signals
         [(''EmaCrossoverStrategy'',
             Some \<lparr>sp_side = ''BUY'', sp_entry_price = 100, sp_quantity = 1, sp_entry_time = 3\<rparr>),
          (''SwingTrendStrategy'',
             Some \<lparr>sp_side = ''BUY'', sp_entry_price = 102, sp_quantity = 1, sp_entry_time = 4\<rparr>),
          (''ScalpingMeanReversionStrategy'',
             Some \<lparr>sp_side = ''SELL'', sp_entry_price = 104, sp_quantity = 1, sp_entry_time = 5\<rparr>)]
         105)
     = [\<lparr>as_strategy = ''EmaCrossoverStrategy'', as_side = ''BUY'', as_entry = 100,
          as_current = 105\<rparr>,
        \<lparr>as_strategy = ''SwingTrendStrategy'', as_side = ''BUY'', as_entry = 102,
          as_current = 105\<rparr>]
   \<and> scan_symbol (AutoTrader_init ''paper'') ''NSE:TCS-EQ''
        (collect_signals
           [(''EmaCrossoverStrategy'',
               Some \<lparr>sp_side = ''BUY'', sp_entry_price = 100, sp_quantity = 1, sp_entry_time = 3\<rparr>),
            (''SwingTrendStrategy'', None),
            (''ScalpingMeanReversionStrategy'',
               Some \<lparr>sp_side = ''SELL'', sp_entry_price = 104, sp_quantity = 1, sp_entry_time = 5\<rparr>)]
           105) 105 = Inr None
   \<and> check_consensus [SignalDict (Some ''BUY''), SignalDict (Some ''BUY''),
                        SignalDict (Some ''SELL'')] False 105 = Some (''BUY'', 105)
   \<and> check_consensus [SignalDict (Some ''BUY''), SignalNone, SignalDict (Some ''SELL'')]
        False 105 = None"
proof -
  let ?two = "collect_signals
         [(''EmaCrossoverStrategy'',
             Some \<lparr>sp_side = ''BUY'', sp_entry_price = 100, sp_quantity = 1, sp_entry_time = 3\<rparr>),
          (''SwingTrendStrategy'',
             Some \<lparr>sp_side = ''BUY'', sp_entry_price = 102, sp_quantity = 1, sp_entry_time = 4\<rparr>),
          (''ScalpingMeanReversionStrategy'',
             Some \<lparr>sp_side = ''SELL'', sp_entry_price = 104, sp_quantity = 1, sp_entry_time = 5\<rparr>)]
         105"
  let ?split = "collect_signals
           [(''EmaCrossoverStrategy'',
               Some \<lparr>sp_side = ''BUY'', sp_entry_price = 100, sp_quantity = 1, sp_entry_time = 3\<rparr>),
            (''SwingTrendStrategy'', None),
            (''ScalpingMeanReversionStrategy'',
               Some \<lparr>sp_side = ''SELL'', sp_entry_price = 104, sp_quantity = 1, sp_entry_time = 5\<rparr>)]
           105"
  have two: "length (filter (\<lambda>s. as_side s = ''BUY'') ?two) = 2
        \<and> length (filter (\<lambda>s. as_side s = ''SELL'') ?two) = 1"
    by (simp add: collect_signals_def)
  have buys: "filter (\<lambda>s. as_side s = ''BUY'') ?two =
      [\<lparr>as_strategy = ''EmaCrossoverStrategy'', as_side = ''BUY'', as_entry = 100,
          as_current = 105\<rparr>,
        \<lparr>as_strategy = ''SwingTrendStrategy'', as_side = ''BUY'', as_entry = 102,
          as_current = 105\<rparr>]"
    by (simp add: collect_signals_def)
  have split: "length (filter (\<lambda>s. as_side s = ''BUY'') ?split) \<le> 1
        \<and> length (filter (\<lambda>s. as_side s = ''SELL'') ?split) \<le> 1"
    by (simp add: collect_signals_def)
  have v2: "sum_list (map buy_vote [SignalDict (Some ''BUY''), SignalDict (Some ''BUY''),
                        SignalDict (Some ''SELL'')]) = 2
      \<and> sum_list (map sell_vote [SignalDict (Some ''BUY''), SignalDict (Some ''BUY''),
                        SignalDict (Some ''SELL'')]) = 1 \<and> \<not> False"
    by simp
  have v1: "sum_list (map buy_vote [SignalDict (Some ''BUY''), SignalNone,
                        SignalDict (Some ''SELL'')]) \<le> 1
      \<and> sum_list (map sell_vote [SignalDict (Some ''BUY''), SignalNone,
                        SignalDict (Some ''SELL'')]) \<le> 1"
    by simp
  from consensus_quorum [where t = "AutoTrader_init ''paper''" and signals = ?two
         and strategies = "[SignalDict (Some ''BUY''), SignalDict (Some ''BUY''),
                        SignalDict (Some ''SELL'')]" and active = False and close = 105]
       two buys v2
  have p1: "dominant_signals (AutoTrader_init ''paper'') ?two =
      [\<lparr>as_strategy = ''EmaCrossoverStrategy'', as_side = ''BUY'', as_entry = 100,
          as_current = 105\<rparr>,
        \<lparr>as_strategy = ''SwingTrendStrategy'', as_side = ''BUY'', as_entry = 102,
          as_current = 105\<rparr>]"
    and p3: "check_consensus [SignalDict (Some ''BUY''), SignalDict (Some ''BUY''),
                        SignalDict (Some ''SELL'')] False 105 = Some (''BUY'', 105)"
    by simp_all
  from consensus_quorum [where t = "AutoTrader_init ''paper''" and signals = ?split
         and sy = "''NSE:TCS-EQ''" and current_price = 105
         and strategies = "[SignalDict (Some ''BUY''), SignalNone,
                        SignalDict (Some ''SELL'')]" and active = False and close = 105]
       split v1
  have p2: "scan_symbol (AutoTrader_init ''paper'') ''NSE:TCS-EQ'' ?split 105 = Inr None"
    and p4: "check_consensus [SignalDict (Some ''BUY''), SignalNone, SignalDict (Some ''SELL'')]
        False 105 = None"
    by simp_all
  from p1 p2 p3 p4 show ?thesis by (intro conjI)
qed

end
